theory Spec2Isabelle
  imports Complex_Main "HOL-Library.AList" "HOL-Library.List_Lexorder"
begin

section \<open>Python values used by \<^verbatim>\<open>scripts/ci/timeline.py\<close>\<close>

text \<open>
  A Python \<^verbatim>\<open>str\<close> is a sequence of Unicode code points, and \<^verbatim>\<open>len\<close> counts code
  points; the bar and sparkline glyphs lie outside ASCII. A string is therefore a list of
  code points, and \<open>lit\<close> embeds an ASCII literal.

  Durations are Python floats obtained from \<^verbatim>\<open>timedelta.total_seconds()\<close>; they are
  modelled as exact real numbers, so rounding of the binary floating-point format, infinities
  and NaN are outside the model. A \<^verbatim>\<open>datetime\<close> is the real number of seconds since
  the epoch: \<^verbatim>\<open>(a - b).total_seconds()\<close> is \<open>a - b\<close> and \<^verbatim>\<open>a.timestamp()\<close> is \<open>a\<close>.
\<close>

type_synonym str = "nat list"

type_synonym datetime = real

definition lit :: "string \<Rightarrow> str" where
  "lit cs = map of_char cs"

text \<open>\<^verbatim>\<open>s * n\<close>: a count below one gives the empty string.\<close>

definition py_repeat :: "str \<Rightarrow> int \<Rightarrow> str" where
  "py_repeat s n = concat (replicate (nat n) s)"

text \<open>
  \<^verbatim>\<open>s.ljust(w)\<close> and the format specifications \<^verbatim>\<open>{s:<w}\<close>, \<^verbatim>\<open>{s:>w}\<close> and
  \<^verbatim>\<open>{s:^w}\<close>: a string already \<open>w\<close> long or longer is returned unchanged; centring
  puts the smaller half of the padding on the left.
\<close>

definition ljust :: "str \<Rightarrow> int \<Rightarrow> str" where
  "ljust s w = s @ replicate (nat (w - int (length s))) 32"

definition rjust :: "str \<Rightarrow> int \<Rightarrow> str" where
  "rjust s w = replicate (nat (w - int (length s))) 32 @ s"

definition center :: "str \<Rightarrow> int \<Rightarrow> str" where
  "center s w =
     (let pad = nat (w - int (length s)); left = pad div 2
      in replicate left 32 @ s @ replicate (pad - left) 32)"

text \<open>\<^verbatim>\<open>sep.join(xs)\<close>.\<close>

fun join :: "str \<Rightarrow> str list \<Rightarrow> str" where
  "join sep [] = []"
| "join sep [x] = x"
| "join sep (x # y # ys) = x @ sep @ join sep (y # ys)"

text \<open>\<^verbatim>\<open>int(x)\<close> on a float truncates towards zero.\<close>

definition py_int :: "real \<Rightarrow> int" where
  "py_int x = (if 0 \<le> x then \<lfloor>x\<rfloor> else \<lceil>x\<rceil>)"

text \<open>\<^verbatim>\<open>x // y\<close> and \<^verbatim>\<open>x % y\<close> on floats: floor division and its remainder.\<close>

definition py_floordiv :: "real \<Rightarrow> real \<Rightarrow> real" where
  "py_floordiv x y = of_int \<lfloor>x / y\<rfloor>"

definition py_mod :: "real \<Rightarrow> real \<Rightarrow> real" where
  "py_mod x y = x - y * of_int \<lfloor>x / y\<rfloor>"

text \<open>Decimal rendering of an integer inside an f-string; code point 48 is the digit zero,
  45 the minus sign.\<close>

fun str_of_nat :: "nat \<Rightarrow> str" where
  "str_of_nat n = (if n < 10 then [48 + n] else str_of_nat (n div 10) @ [48 + n mod 10])"

declare str_of_nat.simps [simp del]

definition str_of_int :: "int \<Rightarrow> str" where
  "str_of_int i = (if i < 0 then 45 # str_of_nat (nat (- i)) else str_of_nat (nat i))"

text \<open>\<^verbatim>\<open>min\<close> and \<^verbatim>\<open>max\<close> over a sequence, and \<^verbatim>\<open>max(xs, key=f)\<close>, which keeps the
  first element among those with the greatest key. Each call site has checked that the
  sequence is not empty.\<close>

definition py_min :: "real list \<Rightarrow> real" where
  "py_min xs = fold min (tl xs) (hd xs)"

definition py_max :: "real list \<Rightarrow> real" where
  "py_max xs = fold max (tl xs) (hd xs)"

definition py_max_key :: "('a \<Rightarrow> real) \<Rightarrow> 'a list \<Rightarrow> 'a" where
  "py_max_key f xs = fold (\<lambda>x best. if f best < f x then x else best) (tl xs) (hd xs)"

text \<open>\<^verbatim>\<open>str.isspace\<close> on one code point, as \<^verbatim>\<open>str.strip()\<close> uses it.\<close>

definition py_isspace :: "nat \<Rightarrow> bool" where
  "py_isspace c \<longleftrightarrow>
     (9 \<le> c \<and> c \<le> 13) \<or> (28 \<le> c \<and> c \<le> 32) \<or> c = 133 \<or> c = 160 \<or> c = 5760
     \<or> (8192 \<le> c \<and> c \<le> 8202) \<or> c = 8232 \<or> c = 8233 \<or> c = 8239 \<or> c = 8287 \<or> c = 12288"

definition strip :: "str \<Rightarrow> str" where
  "strip s = rev (dropWhile py_isspace (rev (dropWhile py_isspace s)))"

text \<open>\<^verbatim>\<open>s.split(sep)\<close> for a separator of one character, as in \<^verbatim>\<open>name.split("/")\<close>:
  the result is never empty.\<close>

fun py_split :: "nat \<Rightarrow> str \<Rightarrow> str list" where
  "py_split sep [] = [[]]"
| "py_split sep (c # cs) =
     (if c = sep then [] # py_split sep cs
      else (case py_split sep cs of
              [] \<Rightarrow> [[c]]
            | x # xs \<Rightarrow> (c # x) # xs))"

text \<open>\<^verbatim>\<open>s.replace(old, new)\<close>: occurrences are found from the left and do not overlap;
  the text after a replaced occurrence is scanned from its end, and the result is not
  scanned again.\<close>

function py_replace :: "str \<Rightarrow> str \<Rightarrow> str \<Rightarrow> str" where
  "py_replace old new s =
     (if old = [] then concat (map (\<lambda>c. new @ [c]) s) @ new
      else if s = [] then []
      else if take (length old) s = old then new @ py_replace old new (drop (length old) s)
      else hd s # py_replace old new (tl s))"
  by pat_completeness auto
termination
  by (relation "measure (\<lambda>(old, new, s). length s)") auto

declare py_replace.simps [simp del]

datatype py_error = ZeroDivisionError

section \<open>Data model\<close>

record Job =
  name :: str
  status :: str
  conclusion :: "str option"
  created_at :: datetime
  started_at :: "datetime option"
  completed_at :: "datetime option"

definition queue_duration_seconds :: "Job \<Rightarrow> real" where
  "queue_duration_seconds j =
     (case Job.started_at j of
        Some s \<Rightarrow> s - Job.created_at j
      | None \<Rightarrow> 0)"

definition run_duration_seconds :: "Job \<Rightarrow> real" where
  "run_duration_seconds j =
     (case (Job.started_at j, Job.completed_at j) of
        (Some s, Some c) \<Rightarrow> c - s
      | _ \<Rightarrow> 0)"

definition total_duration_seconds :: "Job \<Rightarrow> real" where
  "total_duration_seconds j =
     (case Job.completed_at j of
        Some c \<Rightarrow> c - Job.created_at j
      | None \<Rightarrow> 0)"

record WorkflowRun =
  id :: int
  name :: str
  status :: str
  conclusion :: "str option"
  created_at :: datetime
  started_at :: "datetime option"
  updated_at :: datetime
  jobs :: "Job list"

section \<open>Duration formatter\<close>

definition format_duration :: "real \<Rightarrow> str" where
  "format_duration seconds =
     (if seconds < 60 then str_of_int (py_int seconds) @ lit ''s''
      else if seconds < 3600 then
        (let mins = py_int (py_floordiv seconds 60);
             secs = py_int (py_mod seconds 60)
         in str_of_int mins @ lit ''m'' @ str_of_int secs @ lit ''s'')
      else
        (let hours = py_int (py_floordiv seconds 3600);
             mins = py_int (py_floordiv (py_mod seconds 3600) 60)
         in str_of_int hours @ lit ''h'' @ str_of_int mins @ lit ''m''))"

section \<open>Sparkline renderer\<close>

text \<open>The nine glyphs: a space, then U+2581 to U+2588.\<close>

definition SPARK_BLOCKS :: str where
  "SPARK_BLOCKS = [32, 9601, 9602, 9603, 9604, 9605, 9606, 9607, 9608]"

text \<open>The jobs kept by \<^verbatim>\<open>[j for j in jobs if j.started_at and j.completed_at]\<close>; a
  \<^verbatim>\<open>datetime\<close> is always true, so the test is on \<^verbatim>\<open>None\<close> alone. The renderers read
  the start and completion time of a job with \<open>the\<close> only after such a filter has kept the
  job, where the source reads the attribute of a job it has filtered in the same way.\<close>

definition timed :: "Job \<Rightarrow> bool" where
  "timed j \<longleftrightarrow> Job.started_at j \<noteq> None \<and> Job.completed_at j \<noteq> None"

text \<open>The inner loop of \<^verbatim>\<open>render_sparkline\<close>: the jobs running during one bucket.\<close>

definition running_count :: "Job list \<Rightarrow> real \<Rightarrow> real \<Rightarrow> nat" where
  "running_count completed_jobs bucket_start bucket_end =
     fold (\<lambda>j count.
            (let started_ts = the (Job.started_at j);
                 completed_ts = the (Job.completed_at j)
             in if started_ts < bucket_end \<and> completed_ts > bucket_start
                then count + 1 else count))
       completed_jobs 0"

text \<open>One pass of the outer loop: the glyph of bucket \<open>i\<close> is appended to \<open>result\<close>.\<close>

definition sparkline_step ::
  "Job list \<Rightarrow> real \<Rightarrow> real \<Rightarrow> nat \<Rightarrow> nat \<Rightarrow> str \<Rightarrow> str" where
  "sparkline_step completed_jobs min_time bucket_seconds max_parallelism i result =
     (let bucket_start = min_time + real i * bucket_seconds;
          bucket_end = bucket_start + bucket_seconds;
          count = running_count completed_jobs bucket_start bucket_end
      in if count = 0 then result @ [SPARK_BLOCKS ! 0]
         else
           (let level = min 8 (max 1 (py_int ((real count / real max_parallelism) * 8)))
            in result @ [SPARK_BLOCKS ! nat level]))"

text \<open>Dividing by a width of zero raises \<^verbatim>\<open>ZeroDivisionError\<close>; a negative width gives an
  empty range and so an empty string.\<close>

definition render_sparkline :: "Job list \<Rightarrow> int \<Rightarrow> py_error + str" where
  "render_sparkline js width =
     (if js = [] then Inr (py_repeat (lit '' '') width)
      else
        (let completed_jobs = filter timed js
         in if completed_jobs = [] then Inr (py_repeat (lit '' '') width)
            else
              (let min_time = py_min (map Job.created_at completed_jobs);
                   max_time = py_max (map (\<lambda>j. the (Job.completed_at j)) completed_jobs);
                   total_seconds = max_time - min_time
               in if total_seconds = 0 then Inr (py_repeat [9608] width)
                  else if width = 0 then Inl ZeroDivisionError
                  else
                    (let bucket_seconds = total_seconds / real_of_int width;
                         max_parallelism = length completed_jobs
                     in Inr (fold (sparkline_step completed_jobs min_time bucket_seconds
                                     max_parallelism)
                               [0..<nat width] [])))))"

section \<open>Bar renderer\<close>

text \<open>U+2591 is the queued glyph, U+2588 the running glyph.\<close>

definition render_job_bar :: "real \<Rightarrow> real \<Rightarrow> real \<Rightarrow> int \<Rightarrow> str" where
  "render_job_bar queue_secs run_secs max_secs width =
     (if max_secs = 0 then py_repeat (lit '' '') width
      else
        (let total = queue_secs + run_secs;
             total_chars = py_int ((total / max_secs) * real_of_int width);
             queue_chars = py_int ((queue_secs / max_secs) * real_of_int width);
             run_chars = total_chars - queue_chars;
             bar = py_repeat [9617] queue_chars @ py_repeat [9608] run_chars
         in ljust bar width))"

section \<open>Job-name normalizer\<close>

definition normalize_job_name :: "str \<Rightarrow> str" where
  "normalize_job_name nm =
     (let short = strip (last (py_split 47 nm));
          short = py_replace (lit '')'') [] (py_replace (lit ''build ('') [] short);
          short = py_replace (lit ''ubuntu-24.04, '') [] (py_replace (lit ''ubuntu-22.04, '') [] short);
          short = py_replace (lit ''macos-15, '') [] (py_replace (lit ''macos-14, '') [] short);
          short = py_replace (lit ''windows-2025, '') [] (py_replace (lit ''windows-2022, '') [] short)
      in short)"

section \<open>Single-run renderer\<close>

text \<open>The row of one job in the table; \<open>bar_width\<close> is 20 and \<open>name_width\<close> is 40 there.\<close>

definition single_run_row :: "real \<Rightarrow> int \<Rightarrow> int \<Rightarrow> Job \<Rightarrow> str" where
  "single_run_row max_duration bar_width name_width j =
     (let short_name = take (nat (name_width - 2)) (normalize_job_name (Job.name j));
          bar = render_job_bar (queue_duration_seconds j) (run_duration_seconds j)
                  max_duration bar_width;
          queue = format_duration (queue_duration_seconds j);
          run_time = format_duration (run_duration_seconds j);
          total = format_duration (total_duration_seconds j)
      in ljust short_name name_width @ lit '' '' @ bar @ lit ''  '' @ rjust queue 7
           @ lit '' '' @ rjust run_time 7 @ lit '' '' @ rjust total 7)"

text \<open>
  \<^verbatim>\<open>sorted(jobs, key=..., reverse=True)\<close> is a stable sort into descending order: jobs
  with equal keys keep their order. \<open>sort_key\<close> is stable and ascending, so it is run on
  the negated key.
\<close>

definition render_single_run :: "WorkflowRun \<Rightarrow> int \<Rightarrow> py_error + str" where
  "render_single_run run width =
     (if WorkflowRun.jobs run = [] then Inr (lit ''No jobs found'')
      else
        (let jobs = filter timed (WorkflowRun.jobs run)
         in if jobs = [] then Inr (lit ''No completed jobs with timing info'')
            else
              (let min_time = py_min (map Job.created_at jobs);
                   max_time = py_max (map (\<lambda>j. the (Job.completed_at j)) jobs);
                   total_seconds = max_time - min_time
               in if total_seconds = 0 then Inr (lit ''All jobs completed instantly'')
                  else
                    (let jobs = sort_key (\<lambda>j. - total_duration_seconds j) jobs;
                         header =
                           [py_repeat (lit ''='') width,
                            lit ''Workflow: '' @ WorkflowRun.name run @ lit '' (Run #''
                              @ str_of_int (WorkflowRun.id run) @ lit '')'',
                            lit ''Status: '' @ WorkflowRun.status run @ lit '' / ''
                              @ (case WorkflowRun.conclusion run of
                                   None \<Rightarrow> lit ''in progress''
                                 | Some c \<Rightarrow> if c = [] then lit ''in progress'' else c),
                            py_repeat (lit ''='') width,
                            []];
                         max_duration = py_max (map total_duration_seconds jobs);
                         bar_width = 20;
                         name_width = 40;
                         table =
                           [ljust (lit ''Job'') name_width @ lit '' ''
                              @ ljust (lit ''Timeline'') (bar_width + 2) @ lit '' ''
                              @ rjust (lit ''Queue'') 7 @ lit '' '' @ rjust (lit ''Run'') 7
                              @ lit '' '' @ rjust (lit ''Total'') 7,
                            py_repeat (lit ''-'') width]
                           @ map (single_run_row max_duration bar_width name_width) jobs
                           @ [py_repeat (lit ''-'') width];
                         total_queue = sum_list (map queue_duration_seconds jobs);
                         total_run = sum_list (map run_duration_seconds jobs);
                         max_queue = py_max (map queue_duration_seconds jobs);
                         summary =
                           [[],
                            lit ''Wall clock: '' @ rjust (format_duration total_seconds) 10
                              @ lit ''    Sum of run times: ''
                              @ rjust (format_duration total_run) 10,
                            lit ''Max queue:  '' @ rjust (format_duration max_queue) 10
                              @ lit ''    Sum of queue times: ''
                              @ rjust (format_duration total_queue) 10]
                     in case render_sparkline jobs 50 of
                          Inl e \<Rightarrow> Inl e
                        | Inr sparkline \<Rightarrow>
                            (let activity =
                                   [[],
                                    lit ''Activity:   '' @ sparkline,
                                    lit ''            '' @ center (lit ''0'') 10
                                      @ center (format_duration (total_seconds / 2)) 30
                                      @ rjust (format_duration total_seconds) 10];
                                 last_job = py_max_key (\<lambda>j. the (Job.completed_at j)) jobs;
                                 critical =
                                   [[],
                                    lit ''Critical path: ''
                                      @ normalize_job_name (Job.name last_job)
                                      @ lit '' (queue ''
                                      @ format_duration (queue_duration_seconds last_job)
                                      @ lit '', run ''
                                      @ format_duration (run_duration_seconds last_job)
                                      @ lit '')''];
                                 legend =
                                   [[],
                                    lit ''Legend: '' @ [9608] @ lit '' running  '' @ [9617]
                                      @ lit '' queued'']
                             in Inr (join [10]
                                  (header @ table @ summary @ activity @ critical
                                     @ legend)))))))"

section \<open>Comparison renderer\<close>

text \<open>
  \<^verbatim>\<open>{normalize_job_name(j.name): j for j in run.jobs if j.completed_at}\<close>: a dictionary
  keeps its keys in the order of their first insertion, and a key inserted again keeps its
  place and takes the new value, which is what \<open>AList.update\<close> does on an association
  list.
\<close>

definition jobs_by_name :: "Job list \<Rightarrow> (str \<times> Job) list" where
  "jobs_by_name js =
     fold (\<lambda>j d. AList.update (normalize_job_name (Job.name j)) j d)
       (filter (\<lambda>j. Job.completed_at j \<noteq> None) js) []"

text \<open>\<^verbatim>\<open>sorted(set(jobs1.keys()) | set(jobs2.keys()))\<close>; strings compare by code point,
  a proper prefix before its extensions.\<close>

definition all_job_names :: "(str \<times> Job) list \<Rightarrow> (str \<times> Job) list \<Rightarrow> str list" where
  "all_job_names jobs1 jobs2 = sorted_list_of_set (set (map fst jobs1) \<union> set (map fst jobs2))"

definition all_durations ::
  "(str \<times> Job) list \<Rightarrow> (str \<times> Job) list \<Rightarrow> str list \<Rightarrow> real list" where
  "all_durations jobs1 jobs2 names =
     fold (\<lambda>nm ds.
             (let ds = (case map_of jobs1 nm of
                          Some j \<Rightarrow> ds @ [total_duration_seconds j]
                        | None \<Rightarrow> ds)
              in case map_of jobs2 nm of
                   Some j \<Rightarrow> ds @ [total_duration_seconds j]
                 | None \<Rightarrow> ds))
       names []"

text \<open>The scale of the bars: the greatest total duration over both runs, or 1 when there
  is no job at all.\<close>

definition diff_max_duration ::
  "(str \<times> Job) list \<Rightarrow> (str \<times> Job) list \<Rightarrow> str list \<Rightarrow> real" where
  "diff_max_duration jobs1 jobs2 names =
     (let durations = all_durations jobs1 jobs2 names
      in if durations \<noteq> [] then py_max durations else 1)"

text \<open>The delta tag of a job present in both runs (the variable \<^verbatim>\<open>delta_str\<close>).\<close>

definition delta_str :: "real \<Rightarrow> str" where
  "delta_str run_delta =
     (if \<bar>run_delta\<bar> < 60 then lit ''~same''
      else if run_delta > 0 then lit ''+'' @ format_duration run_delta
      else lit ''-'' @ format_duration (- run_delta))"

text \<open>
  The body of the loop over the job names. The state is the list of lines written so far
  with the two running sums \<^verbatim>\<open>total_run_delta\<close> and \<^verbatim>\<open>total_queue_delta\<close>.
  A \<^verbatim>\<open>Job\<close> object is always true, so \<^verbatim>\<open>if j1 and j2\<close> tests presence alone.
\<close>

definition diff_row ::
  "(str \<times> Job) list \<Rightarrow> (str \<times> Job) list \<Rightarrow> real \<Rightarrow> int \<Rightarrow> int \<Rightarrow> str
     \<Rightarrow> str list \<times> real \<times> real \<Rightarrow> str list \<times> real \<times> real" where
  "diff_row jobs1 jobs2 max_duration bar_width name_width nm st =
     (case st of (lines, total_run_delta, total_queue_delta) \<Rightarrow>
        (let short_name = take (nat (name_width - 2)) nm
         in case (map_of jobs1 nm, map_of jobs2 nm) of
              (Some j1, Some j2) \<Rightarrow>
                (let bar1 = render_job_bar (queue_duration_seconds j1)
                              (run_duration_seconds j1) max_duration bar_width;
                     bar2 = render_job_bar (queue_duration_seconds j2)
                              (run_duration_seconds j2) max_duration bar_width;
                     time1 = format_duration (total_duration_seconds j1);
                     time2 = format_duration (total_duration_seconds j2);
                     run_delta = run_duration_seconds j2 - run_duration_seconds j1
                 in (lines @ [ljust short_name name_width @ lit '' '' @ bar1 @ lit '' ''
                                @ rjust time1 6 @ lit ''  '' @ bar2 @ lit '' ''
                                @ rjust time2 6 @ lit ''  ''
                                @ rjust (delta_str run_delta) 10],
                     total_run_delta + run_delta,
                     total_queue_delta
                       + (queue_duration_seconds j2 - queue_duration_seconds j1)))
            | (Some j1, None) \<Rightarrow>
                (let bar1 = render_job_bar (queue_duration_seconds j1)
                              (run_duration_seconds j1) max_duration bar_width;
                     time1 = format_duration (total_duration_seconds j1)
                 in (lines @ [ljust short_name name_width @ lit '' '' @ bar1 @ lit '' ''
                                @ rjust time1 6 @ lit ''  ''
                                @ ljust (lit ''(missing)'') (bar_width + 7)],
                     total_run_delta, total_queue_delta))
            | (None, Some j2) \<Rightarrow>
                (let bar2 = render_job_bar (queue_duration_seconds j2)
                              (run_duration_seconds j2) max_duration bar_width;
                     time2 = format_duration (total_duration_seconds j2)
                 in (lines @ [ljust short_name name_width @ lit '' ''
                                @ ljust (lit ''(missing)'') (bar_width + 7) @ lit ''  ''
                                @ bar2 @ lit '' '' @ rjust time2 6],
                     total_run_delta, total_queue_delta))
            | (None, None) \<Rightarrow> st))"

definition get_wall_time :: "WorkflowRun \<Rightarrow> real" where
  "get_wall_time run =
     (let jobs = filter (\<lambda>j. Job.completed_at j \<noteq> None) (WorkflowRun.jobs run)
      in if jobs = [] then 0
         else py_max (map (\<lambda>j. the (Job.completed_at j)) jobs)
                - py_min (map Job.created_at jobs))"

text \<open>The last column of the three aggregate rows:
  \<^verbatim>\<open>{'+' if delta > 0 else ''}{format_duration(abs(delta)):>10}\<close>.\<close>

definition delta_column :: "real \<Rightarrow> str" where
  "delta_column delta =
     (if delta > 0 then lit ''+'' else []) @ rjust (format_duration \<bar>delta\<bar>) 10"

text \<open>The lines written between \<^verbatim>\<open>KEY INSIGHT:\<close> and the closing rule.\<close>

definition key_insight :: "real \<Rightarrow> real \<Rightarrow> real \<Rightarrow> str list" where
  "key_insight total_run_delta total_queue_delta wall_delta =
     (if total_run_delta < - 60 then
        [lit ''  Run 2 saved '' @ format_duration (- total_run_delta)
           @ lit '' in actual build time across all jobs.'']
      else if total_run_delta > 60 then
        [lit ''  Run 2 spent '' @ format_duration total_run_delta
           @ lit '' MORE in actual build time across all jobs.'']
      else [lit ''  Actual build times are roughly the same.''])
     @ (if total_queue_delta > 60 then
          [lit ''  BUT Run 2 had '' @ format_duration total_queue_delta
             @ lit '' MORE queue wait time.'']
        else if total_queue_delta < - 60 then
          [lit ''  AND Run 2 had '' @ format_duration (- total_queue_delta)
             @ lit '' LESS queue wait time.'']
        else [])
     @ (if wall_delta > 0 \<and> total_run_delta < 0 then
          [[],
           lit ''  Despite faster builds, wall clock time increased due to runner queue delays!'']
        else if wall_delta < 0 \<and> total_run_delta < 0 then
          [[], lit ''  Build time savings translated to faster wall clock time.'']
        else [])"

definition render_unified_diff_lines :: "WorkflowRun \<Rightarrow> WorkflowRun \<Rightarrow> int \<Rightarrow> str list" where
  "render_unified_diff_lines run1 run2 width =
     (let lines =
            [py_repeat (lit ''='') width,
             lit ''COMPARING: Run #'' @ str_of_int (WorkflowRun.id run1) @ lit '' vs #''
               @ str_of_int (WorkflowRun.id run2),
             py_repeat (lit ''='') width,
             []];
          jobs1 = jobs_by_name (WorkflowRun.jobs run1);
          jobs2 = jobs_by_name (WorkflowRun.jobs run2);
          names = all_job_names jobs1 jobs2;
          max_duration = diff_max_duration jobs1 jobs2 names;
          bar_width = 16;
          name_width = 28;
          lines = lines
            @ [ljust (lit ''Job'') name_width @ lit '' '' @ ljust (lit ''Run 1'') (bar_width + 8)
                 @ lit '' '' @ ljust (lit ''Run 2'') (bar_width + 8) @ lit '' ''
                 @ rjust (lit ''Delta'') 10,
               py_repeat (lit ''-'') width]
      in case fold (diff_row jobs1 jobs2 max_duration bar_width name_width) names
                (lines, 0, 0) of
           (lines, total_run_delta, total_queue_delta) \<Rightarrow>
             (let lines = lines @ [py_repeat (lit ''-'') width];
                  wall1 = get_wall_time run1;
                  wall2 = get_wall_time run2;
                  wall_delta = wall2 - wall1;
                  sum_run1 = sum_list (map (run_duration_seconds \<circ> snd) jobs1);
                  sum_run2 = sum_list (map (run_duration_seconds \<circ> snd) jobs2);
                  sum_queue1 = sum_list (map (queue_duration_seconds \<circ> snd) jobs1);
                  sum_queue2 = sum_list (map (queue_duration_seconds \<circ> snd) jobs2)
              in lines
                 @ [[],
                    ljust (lit ''Wall clock:'') name_width @ lit '' ''
                      @ rjust (format_duration wall1) (bar_width + 7) @ lit ''  ''
                      @ rjust (format_duration wall2) (bar_width + 7) @ lit ''  ''
                      @ delta_column wall_delta,
                    ljust (lit ''Sum of run times:'') name_width @ lit '' ''
                      @ rjust (format_duration sum_run1) (bar_width + 7) @ lit ''  ''
                      @ rjust (format_duration sum_run2) (bar_width + 7) @ lit ''  ''
                      @ delta_column total_run_delta,
                    ljust (lit ''Sum of queue times:'') name_width @ lit '' ''
                      @ rjust (format_duration sum_queue1) (bar_width + 7) @ lit ''  ''
                      @ rjust (format_duration sum_queue2) (bar_width + 7) @ lit ''  ''
                      @ delta_column total_queue_delta,
                    [],
                    py_repeat (lit ''='') width,
                    lit ''KEY INSIGHT:'']
                 @ key_insight total_run_delta total_queue_delta wall_delta
                 @ [py_repeat (lit ''='') width,
                    [],
                    lit ''Legend: '' @ [9608] @ lit '' running  '' @ [9617]
                      @ lit '' queued'']))"

definition render_unified_diff :: "WorkflowRun \<Rightarrow> WorkflowRun \<Rightarrow> int \<Rightarrow> str" where
  "render_unified_diff run1 run2 width = join [10] (render_unified_diff_lines run1 run2 width)"

section \<open>The specification's reading of the sparkline\<close>

text \<open>
  The span of a job list, in the specification's words: the greatest completion time minus
  the least creation time over the jobs that have both a start and a completion time.
\<close>

definition timed_span :: "Job list \<Rightarrow> real" where
  "timed_span js =
     Max ((\<lambda>j. the (Job.completed_at j)) ` set (filter timed js))
       - Min (Job.created_at ` set (filter timed js))"




text \<open>The glyph that one pass of the outer loop of \<^verbatim>\<open>render_sparkline\<close> appends.\<close>

definition bucket_glyph :: "Job list \<Rightarrow> real \<Rightarrow> real \<Rightarrow> nat \<Rightarrow> nat \<Rightarrow> nat" where
  "bucket_glyph completed_jobs min_time bucket_seconds max_parallelism i =
     (let bucket_start = min_time + real i * bucket_seconds;
          bucket_end = bucket_start + bucket_seconds;
          count = running_count completed_jobs bucket_start bucket_end
      in if count = 0 then SPARK_BLOCKS ! 0
         else SPARK_BLOCKS ! nat (min 8 (max 1 (py_int ((real count / real max_parallelism) * 8)))))"

section \<open>The specification's reading of the normalizer\<close>

text \<open>\<^verbatim>\<open>old in s\<close>: the string \<open>old\<close> occurs in \<open>s\<close>.\<close>

fun contains :: "str \<Rightarrow> str \<Rightarrow> bool" where
  "contains old [] \<longleftrightarrow> old = []"
| "contains old (c # cs) \<longleftrightarrow> take (length old) (c # cs) = old \<or> contains old cs"

text \<open>The decorations that \<^verbatim>\<open>normalize_job_name\<close> removes, in the order of its calls of
  \<^verbatim>\<open>replace\<close>.\<close>

definition decorations :: "str list" where
  "decorations =
     [lit ''build ('', lit '')'',
      lit ''ubuntu-22.04, '', lit ''ubuntu-24.04, '',
      lit ''macos-14, '', lit ''macos-15, '',
      lit ''windows-2022, '', lit ''windows-2025, '']"

text \<open>
  The normalizer as the specification words it: of the closing parenthesis only a trailing
  one is removed.
\<close>

definition strip_trailing_paren :: "str \<Rightarrow> str" where
  "strip_trailing_paren s = (if s \<noteq> [] \<and> last s = 41 then butlast s else s)"

definition normalize_spec :: "str \<Rightarrow> str" where
  "normalize_spec nm =
     (let short = strip (last (py_split 47 nm));
          short = strip_trailing_paren (py_replace (lit ''build ('') [] short)
      in fold (\<lambda>d s. py_replace d [] s) (drop 2 decorations) short)"

section \<open>The rows and sums of the comparison, name by name\<close>

text \<open>The lines that the loop body writes for one name, and what it adds to the two running
  sums: the difference of the run and of the queue durations of a job present in both runs,
  nothing otherwise.\<close>

definition diff_lines ::
  "(str \<times> Job) list \<Rightarrow> (str \<times> Job) list \<Rightarrow> real \<Rightarrow> int \<Rightarrow> int \<Rightarrow> str \<Rightarrow> str list" where
  "diff_lines jobs1 jobs2 max_duration bar_width name_width nm =
     fst (diff_row jobs1 jobs2 max_duration bar_width name_width nm ([], 0, 0))"

definition matched_run_delta :: "(str \<times> Job) list \<Rightarrow> (str \<times> Job) list \<Rightarrow> str \<Rightarrow> real" where
  "matched_run_delta jobs1 jobs2 nm =
     (case (map_of jobs1 nm, map_of jobs2 nm) of
        (Some j1, Some j2) \<Rightarrow> run_duration_seconds j2 - run_duration_seconds j1
      | _ \<Rightarrow> 0)"

definition matched_queue_delta :: "(str \<times> Job) list \<Rightarrow> (str \<times> Job) list \<Rightarrow> str \<Rightarrow> real" where
  "matched_queue_delta jobs1 jobs2 nm =
     (case (map_of jobs1 nm, map_of jobs2 nm) of
        (Some j1, Some j2) \<Rightarrow> queue_duration_seconds j2 - queue_duration_seconds j1
      | _ \<Rightarrow> 0)"

text \<open>The two sums when the loop has ended: the deltas of the jobs present in both runs.\<close>

definition total_run_delta :: "WorkflowRun \<Rightarrow> WorkflowRun \<Rightarrow> real" where
  "total_run_delta run1 run2 =
     (let jobs1 = jobs_by_name (WorkflowRun.jobs run1);
          jobs2 = jobs_by_name (WorkflowRun.jobs run2)
      in sum_list (map (matched_run_delta jobs1 jobs2) (all_job_names jobs1 jobs2)))"

definition total_queue_delta :: "WorkflowRun \<Rightarrow> WorkflowRun \<Rightarrow> real" where
  "total_queue_delta run1 run2 =
     (let jobs1 = jobs_by_name (WorkflowRun.jobs run1);
          jobs2 = jobs_by_name (WorkflowRun.jobs run2)
      in sum_list (map (matched_queue_delta jobs1 jobs2) (all_job_names jobs1 jobs2)))"

text \<open>The six lines above the rows and the three aggregate rows below them, with
  \<^verbatim>\<open>bar_width\<close> 16 and \<^verbatim>\<open>name_width\<close> 28 filled in.\<close>

definition diff_header :: "WorkflowRun \<Rightarrow> WorkflowRun \<Rightarrow> int \<Rightarrow> str list" where
  "diff_header run1 run2 width =
     [py_repeat (lit ''='') width,
      lit ''COMPARING: Run #'' @ str_of_int (WorkflowRun.id run1) @ lit '' vs #''
        @ str_of_int (WorkflowRun.id run2),
      py_repeat (lit ''='') width,
      [],
      ljust (lit ''Job'') 28 @ lit '' '' @ ljust (lit ''Run 1'') 24
        @ lit '' '' @ ljust (lit ''Run 2'') 24 @ lit '' '' @ rjust (lit ''Delta'') 10,
      py_repeat (lit ''-'') width]"

definition diff_summary :: "WorkflowRun \<Rightarrow> WorkflowRun \<Rightarrow> str list" where
  "diff_summary run1 run2 =
     (let jobs1 = jobs_by_name (WorkflowRun.jobs run1);
          jobs2 = jobs_by_name (WorkflowRun.jobs run2)
      in [ljust (lit ''Wall clock:'') 28 @ lit '' ''
            @ rjust (format_duration (get_wall_time run1)) 23 @ lit ''  ''
            @ rjust (format_duration (get_wall_time run2)) 23 @ lit ''  ''
            @ delta_column (get_wall_time run2 - get_wall_time run1),
          ljust (lit ''Sum of run times:'') 28 @ lit '' ''
            @ rjust (format_duration (sum_list (map (run_duration_seconds \<circ> snd) jobs1))) 23
            @ lit ''  ''
            @ rjust (format_duration (sum_list (map (run_duration_seconds \<circ> snd) jobs2))) 23
            @ lit ''  ''
            @ delta_column (total_run_delta run1 run2),
          ljust (lit ''Sum of queue times:'') 28 @ lit '' ''
            @ rjust (format_duration (sum_list (map (queue_duration_seconds \<circ> snd) jobs1))) 23
            @ lit ''  ''
            @ rjust (format_duration (sum_list (map (queue_duration_seconds \<circ> snd) jobs2))) 23
            @ lit ''  ''
            @ delta_column (total_queue_delta run1 run2)])"

section \<open>Example inputs\<close>

text \<open>A completed job and a run with the given jobs, for concrete evaluations.\<close>

definition mk_job :: "string \<Rightarrow> datetime \<Rightarrow> datetime option \<Rightarrow> datetime option \<Rightarrow> Job" where
  "mk_job nm created started completed =
     \<lparr>Job.name = lit nm, status = lit ''completed'', conclusion = Some (lit ''success''),
      created_at = created, started_at = started, completed_at = completed\<rparr>"

definition mk_run :: "int \<Rightarrow> Job list \<Rightarrow> WorkflowRun" where
  "mk_run n js =
     \<lparr>WorkflowRun.id = n, name = lit ''CI'', status = lit ''completed'',
      conclusion = Some (lit ''success''), created_at = 0, started_at = Some 0,
      updated_at = 0, jobs = js\<rparr>"

text \<open>The end-to-end scenario of the specification: one job \<^verbatim>\<open>build\<close> in each run, queued for
  30 seconds in both, running for 120 seconds in the first run and 50 in the second.\<close>

definition scenario_run1 :: WorkflowRun where
  "scenario_run1 = mk_run 1 [mk_job ''build'' 0 (Some 30) (Some 150)]"

definition scenario_run2 :: WorkflowRun where
  "scenario_run2 = mk_run 2 [mk_job ''build'' 0 (Some 30) (Some 80)]"

text \<open>Two runs that differ in their jobs: \<^verbatim>\<open>build\<close> is in both, two jobs of the first run
  share the normalized name \<^verbatim>\<open>lint\<close>, and \<^verbatim>\<open>docs\<close> is in the second run only.\<close>

definition example_run1 :: WorkflowRun where
  "example_run1 =
     mk_run 11 [mk_job ''build'' 0 (Some 30) (Some 150), mk_job ''a / lint'' 0 (Some 10) (Some 40),
                mk_job ''b / lint'' 0 (Some 20) (Some 60)]"

definition example_run2 :: WorkflowRun where
  "example_run2 =
     mk_run 12 [mk_job ''build'' 0 (Some 30) (Some 80), mk_job ''docs'' 0 (Some 5) (Some 20)]"

section \<open>Arithmetic and string helpers\<close>

lemma py_int_nonneg: "0 \<le> x \<Longrightarrow> py_int x = \<lfloor>x\<rfloor>"
  by (simp add: py_int_def)

lemma py_int_of_int: "py_int (of_int k) = k"
  by (simp add: py_int_def)



lemma py_repeat_single: "py_repeat [c] n = replicate (nat n) c"
  by (induction "nat n" arbitrary: n) (simp_all add: py_repeat_def)

lemma length_ljust: "length (ljust s w) = max (length s) (nat w)"
  by (simp add: ljust_def)

lemma floor_div_numeral: "\<lfloor>(x::real) / numeral n\<rfloor> = \<lfloor>x\<rfloor> div numeral n"
  using floor_divide_real_eq_div [of "numeral n" x] by simp

lemma py_int_floordiv: "py_int (py_floordiv x (numeral n)) = \<lfloor>x\<rfloor> div numeral n"
  by (simp add: py_floordiv_def py_int_of_int floor_div_numeral)

lemma py_mod_floor: "\<lfloor>py_mod x (numeral n)\<rfloor> = \<lfloor>x\<rfloor> mod numeral n"
proof -
  have "py_mod x (numeral n) = x - of_int (numeral n * (\<lfloor>x\<rfloor> div numeral n))"
    by (simp add: py_mod_def floor_div_numeral)
  then have "\<lfloor>py_mod x (numeral n)\<rfloor> = \<lfloor>x\<rfloor> - numeral n * (\<lfloor>x\<rfloor> div numeral n)"
    by (simp only: floor_diff_of_int)
  then show ?thesis
    by (simp add: minus_mult_div_eq_mod)
qed

lemma py_mod_nonneg: "0 \<le> py_mod x (numeral n)"
proof -
  have "of_int \<lfloor>x / numeral n\<rfloor> \<le> x / numeral n" by (rule of_int_floor_le)
  then have "numeral n * of_int \<lfloor>x / numeral n\<rfloor> \<le> x"
    by (simp add: field_simps)
  then show ?thesis by (simp add: py_mod_def)
qed

lemma py_int_mod: "py_int (py_mod x (numeral n)) = \<lfloor>x\<rfloor> mod numeral n"
  by (simp add: py_int_nonneg py_mod_nonneg py_mod_floor)

lemma py_int_floordiv_mod:
  "py_int (py_floordiv (py_mod x (numeral m)) (numeral n)) = \<lfloor>x\<rfloor> mod numeral m div numeral n"
  by (simp add: py_int_floordiv py_mod_floor)

lemma format_duration_nonneg:
  assumes "0 \<le> seconds"
  shows "format_duration seconds =
     (if seconds < 60 then str_of_int \<lfloor>seconds\<rfloor> @ lit ''s''
      else if seconds < 3600 then
        str_of_int (\<lfloor>seconds\<rfloor> div 60) @ lit ''m'' @ str_of_int (\<lfloor>seconds\<rfloor> mod 60) @ lit ''s''
      else
        str_of_int (\<lfloor>seconds\<rfloor> div 3600) @ lit ''h''
          @ str_of_int (\<lfloor>seconds\<rfloor> mod 3600 div 60) @ lit ''m'')"
  using assms
  by (simp add: format_duration_def Let_def py_int_nonneg py_int_floordiv py_int_mod
      py_int_floordiv_mod py_mod_floor)

lemmas fd_eval = format_duration_def py_int_def py_floordiv_def py_mod_def str_of_int_def
  str_of_nat.simps lit_def Let_def

text \<open>
  C8: for every non-negative number of seconds the formatter gives the whole seconds below
  one minute, whole minutes and whole seconds below one hour, and whole hours and whole
  minutes from one hour on, each component rounded down; 0, 59, 60, 3599 and 3600 seconds
  give \<^verbatim>\<open>0s\<close>, \<^verbatim>\<open>59s\<close>, \<^verbatim>\<open>1m0s\<close>, \<^verbatim>\<open>59m59s\<close> and \<^verbatim>\<open>1h0m\<close>.
\<close>

theorem format_duration_rule:
  "(0 \<le> seconds \<longrightarrow>
      format_duration seconds =
        (if seconds < 60 then str_of_int \<lfloor>seconds\<rfloor> @ lit ''s''
         else if seconds < 3600 then
           str_of_int (\<lfloor>seconds\<rfloor> div 60) @ lit ''m''
             @ str_of_int (\<lfloor>seconds\<rfloor> mod 60) @ lit ''s''
         else
           str_of_int (\<lfloor>seconds\<rfloor> div 3600) @ lit ''h''
             @ str_of_int (\<lfloor>seconds\<rfloor> mod 3600 div 60) @ lit ''m''))
   \<and> format_duration 0 = lit ''0s''
   \<and> format_duration 59 = lit ''59s''
   \<and> format_duration 60 = lit ''1m0s''
   \<and> format_duration 3599 = lit ''59m59s''
   \<and> format_duration 3600 = lit ''1h0m''"
proof -
  have "format_duration 0 = lit ''0s''" by (simp add: fd_eval)
  moreover have "format_duration 59 = lit ''59s''" by (simp add: fd_eval)
  moreover have "format_duration 60 = lit ''1m0s''" by (simp add: fd_eval)
  moreover have "format_duration 3599 = lit ''59m59s''" by (simp add: fd_eval)
  moreover have "format_duration 3600 = lit ''1h0m''" by (simp add: fd_eval)
  ultimately show ?thesis
    using format_duration_nonneg [of seconds] by blast
qed

theorem format_duration_rule_witness:
  "(0::real) \<le> 7451 / 2 \<and> format_duration (7451 / 2) = lit ''1h2m''"
  using format_duration_rule [of "7451 / 2"]
  by (simp add: str_of_int_def str_of_nat.simps lit_def)

section \<open>The bar renderer\<close>








section \<open>The sparkline renderer\<close>

lemma py_min_Min: "xs \<noteq> [] \<Longrightarrow> py_min xs = Min (set xs)"
proof (cases xs)
  case Nil
  assume "xs \<noteq> []"
  with Nil show ?thesis by simp
next
  case (Cons a list)
  show ?thesis
    unfolding Cons py_min_def by (simp only: list.sel Min.set_eq_fold)
qed

lemma py_max_Max: "xs \<noteq> [] \<Longrightarrow> py_max xs = Max (set xs)"
proof (cases xs)
  case Nil
  assume "xs \<noteq> []"
  with Nil show ?thesis by simp
next
  case (Cons a list)
  show ?thesis
    unfolding Cons py_max_def by (simp only: list.sel Max.set_eq_fold)
qed

lemma timed_span_eq:
  "filter timed js \<noteq> [] \<Longrightarrow>
   py_max (map (\<lambda>j. the (Job.completed_at j)) (filter timed js))
     - py_min (map Job.created_at (filter timed js)) = timed_span js"
  by (simp add: py_min_Min py_max_Max timed_span_def)




lemma sparkline_step_glyph:
  "sparkline_step cj mt bs mp i result = result @ [bucket_glyph cj mt bs mp i]"
  by (simp add: sparkline_step_def bucket_glyph_def Let_def)

lemma fold_sparkline_step:
  "fold (sparkline_step cj mt bs mp) is result = result @ map (bucket_glyph cj mt bs mp) is"
  by (induction "is" arbitrary: result) (simp_all add: sparkline_step_glyph)

lemma render_sparkline_blank:
  "filter timed js = [] \<Longrightarrow> render_sparkline js width = Inr (replicate (nat width) 32)"
  by (simp add: render_sparkline_def py_repeat_single lit_def)

lemma render_sparkline_unfold:
  assumes "filter timed js \<noteq> []"
  shows "render_sparkline js width =
     (if timed_span js = 0 then Inr (py_repeat [9608] width)
      else if width = 0 then Inl ZeroDivisionError
      else Inr (map (bucket_glyph (filter timed js)
                       (py_min (map Job.created_at (filter timed js)))
                       (timed_span js / real_of_int width) (length (filter timed js)))
                  [0..<nat width]))"
proof -
  from assms have "js \<noteq> []" by auto
  then show ?thesis
    unfolding render_sparkline_def Let_def timed_span_eq [OF assms] fold_sparkline_step
    using assms by simp
qed

lemma render_sparkline_full:
  "filter timed js \<noteq> [] \<Longrightarrow> timed_span js = 0 \<Longrightarrow>
   render_sparkline js width = Inr (replicate (nat width) 9608)"
  by (simp add: render_sparkline_unfold py_repeat_single)

lemma sparkline_bucket_map:
  "filter timed js \<noteq> [] \<Longrightarrow> timed_span js \<noteq> 0 \<Longrightarrow> width \<noteq> 0 \<Longrightarrow>
   render_sparkline js width =
     Inr (map (bucket_glyph (filter timed js)
                 (py_min (map Job.created_at (filter timed js)))
                 (timed_span js / real_of_int width) (length (filter timed js)))
            [0..<nat width])"
  by (simp add: render_sparkline_unfold)

text \<open>
  C3: for every job list and positive width the sparkline is a string of exactly \<open>width\<close>
  characters; it is \<open>width\<close> blank glyphs when no job has both a start and a completion
  time, and \<open>width\<close> copies of the highest glyph when such jobs exist and their span is zero.
\<close>

theorem render_sparkline_length:
  assumes "0 < width"
  shows "(\<exists>s. render_sparkline js width = Inr s \<and> length s = nat width)
     \<and> (filter timed js = [] \<longrightarrow>
          render_sparkline js width = Inr (replicate (nat width) (SPARK_BLOCKS ! 0)))
     \<and> (filter timed js \<noteq> [] \<and> timed_span js = 0 \<longrightarrow>
          render_sparkline js width = Inr (replicate (nat width) (SPARK_BLOCKS ! 8)))"
proof -
  have blank: "SPARK_BLOCKS ! 0 = 32" and full: "SPARK_BLOCKS ! 8 = 9608"
    by (simp_all add: SPARK_BLOCKS_def)
  have "\<exists>s. render_sparkline js width = Inr s \<and> length s = nat width"
  proof (cases "filter timed js = []")
    case True
    then show ?thesis by (simp add: render_sparkline_blank)
  next
    case False
    then show ?thesis
      using assms by (cases "timed_span js = 0")
        (simp_all add: render_sparkline_full sparkline_bucket_map)
  qed
  then show ?thesis
    by (simp add: blank full render_sparkline_blank render_sparkline_full)
qed

theorem render_sparkline_length_witness:
  "(0::int) < 4
   \<and> (\<exists>s. render_sparkline [mk_job ''build'' 0 (Some 30) (Some 150)] 4 = Inr s \<and> length s = 4)
   \<and> render_sparkline [mk_job ''queued'' 0 None None] 4 = Inr (replicate 4 32)
   \<and> render_sparkline [mk_job ''instant'' 5 (Some 5) (Some 5)] 4 = Inr (replicate 4 9608)"
  using render_sparkline_length [of 4 "[mk_job ''build'' 0 (Some 30) (Some 150)]"]
    render_sparkline_length [of 4 "[mk_job ''queued'' 0 None None]"]
    render_sparkline_length [of 4 "[mk_job ''instant'' 5 (Some 5) (Some 5)]"]
  by (simp add: mk_job_def timed_def timed_span_def SPARK_BLOCKS_def)





section \<open>The single-run renderer\<close>

text \<open>
  C10: for every run whose jobs with both a start and a completion time are not empty and
  have a span of zero, the single-run renderer returns the one line
  \<^verbatim>\<open>All jobs completed instantly\<close> and nothing else.
\<close>

theorem render_single_run_instant:
  assumes "filter timed (WorkflowRun.jobs run) \<noteq> []"
    and "timed_span (WorkflowRun.jobs run) = 0"
  shows "render_single_run run width = Inr (lit ''All jobs completed instantly'')"
proof -
  from assms(1) have "WorkflowRun.jobs run \<noteq> []" by auto
  then show ?thesis
    unfolding render_single_run_def Let_def timed_span_eq [OF assms(1)]
    using assms by simp
qed

theorem render_single_run_instant_witness:
  "filter timed (WorkflowRun.jobs (mk_run 7 [mk_job ''lint'' 5 (Some 5) (Some 5), mk_job ''queued'' 5 None None])) \<noteq> []
   \<and> timed_span (WorkflowRun.jobs (mk_run 7 [mk_job ''lint'' 5 (Some 5) (Some 5), mk_job ''queued'' 5 None None])) = 0
   \<and> render_single_run (mk_run 7 [mk_job ''lint'' 5 (Some 5) (Some 5), mk_job ''queued'' 5 None None]) 120
       = Inr (lit ''All jobs completed instantly'')"
  using render_single_run_instant [of "mk_run 7 [mk_job ''lint'' 5 (Some 5) (Some 5), mk_job ''queued'' 5 None None]" 120]
  by (simp add: mk_run_def mk_job_def timed_def timed_span_def)

section \<open>The job-name normalizer\<close>

lemma py_split_nonempty: "py_split sep s \<noteq> []"
  by (induction s) (auto split: list.splits)

lemma py_split_no_sep: "seg \<in> set (py_split sep s) \<Longrightarrow> sep \<notin> set seg"
  by (induction s arbitrary: seg) (auto split: list.splits if_splits)

lemma join_py_split: "join [sep] (py_split sep s) = s"
proof (induction s)
  case Nil
  show ?case by simp
next
  case (Cons c cs)
  obtain x xs where xs: "py_split sep cs = x # xs"
    using py_split_nonempty [of sep cs] by (cases "py_split sep cs") auto
  show ?case
    using Cons xs by (cases xs) auto
qed

lemma join_snoc:
  "join sep (xs @ [l]) = (if xs = [] then l else join sep xs @ sep @ l)"
  by (induction sep xs rule: join.induct) auto

lemma last_py_split:
  "sep \<notin> set (last (py_split sep s))
   \<and> (s = last (py_split sep s) \<or> (\<exists>pre. s = pre @ sep # last (py_split sep s)))"
proof -
  let ?segs = "py_split sep s"
  have ne: "?segs \<noteq> []" by (rule py_split_nonempty)
  then have "last ?segs \<in> set ?segs" by simp
  then have a: "sep \<notin> set (last ?segs)" by (rule py_split_no_sep)
  have "join [sep] (butlast ?segs @ [last ?segs]) = s"
    using ne by (simp add: join_py_split)
  then have "s = (if butlast ?segs = [] then last ?segs
                  else join [sep] (butlast ?segs) @ [sep] @ last ?segs)"
    by (simp only: join_snoc)
  then have "s = last ?segs \<or> (\<exists>pre. s = pre @ sep # last ?segs)"
    by (cases "butlast ?segs = []") auto
  with a show ?thesis by blast
qed

lemma strip_suffix: "dropWhile py_isspace s
    = strip s @ rev (takeWhile py_isspace (rev (dropWhile py_isspace s)))"
  unfolding strip_def by (metis rev_append rev_rev_ident takeWhile_dropWhile_id)

lemma strip_decompose:
  "\<exists>l r. s = l @ strip s @ r \<and> (\<forall>c\<in>set l. py_isspace c) \<and> (\<forall>c\<in>set r. py_isspace c)"
proof -
  let ?l = "takeWhile py_isspace s"
  let ?r = "rev (takeWhile py_isspace (rev (dropWhile py_isspace s)))"
  have "s = ?l @ dropWhile py_isspace s" by simp
  then have "s = ?l @ strip s @ ?r"
    using strip_suffix [of s] by simp
  moreover have "\<forall>c\<in>set ?l. py_isspace c"
    by (auto dest: set_takeWhileD)
  moreover have "\<forall>c\<in>set ?r. py_isspace c"
    by (auto dest: set_takeWhileD)
  ultimately show ?thesis by blast
qed

lemma strip_ends:
  assumes "strip s \<noteq> []"
  shows "\<not> py_isspace (hd (strip s)) \<and> \<not> py_isspace (last (strip s))"
proof -
  let ?t = "dropWhile py_isspace s"
  let ?u = "dropWhile py_isspace (rev ?t)"
  from assms have u: "?u \<noteq> []" by (simp add: strip_def)
  have t: "?t \<noteq> []"
  proof
    assume "?t = []"
    with u show False by (metis dropWhile.simps(1) rev.simps(1))
  qed
  have l: "\<not> py_isspace (hd ?u)" using u by (rule hd_dropWhile)
  have "last (strip s) = hd ?u" using u by (simp add: strip_def last_rev)
  with l have a: "\<not> py_isspace (last (strip s))" by simp
  have "hd ?t = hd (strip s)"
    using assms strip_suffix [of s] by (metis hd_append2)
  moreover have "\<not> py_isspace (hd ?t)" using t by (rule hd_dropWhile)
  ultimately show ?thesis using a by simp
qed

lemma py_replace_Nil: "old \<noteq> [] \<Longrightarrow> py_replace old new [] = []"
  by (subst py_replace.simps) simp

lemma py_replace_Cons:
  "old \<noteq> [] \<Longrightarrow>
   py_replace old new (c # cs) =
     (if take (length old) (c # cs) = old
      then new @ py_replace old new (drop (length old) (c # cs))
      else c # py_replace old new cs)"
  by (subst py_replace.simps) simp

lemma py_replace_empty_old: "py_replace [] [] s = s"
  by (subst py_replace.simps) (induction s, simp_all)

lemma py_replace_subset: "set (py_replace old [] s) \<subseteq> set s"
proof (cases "old = []")
  case True
  then show ?thesis by (simp add: py_replace_empty_old)
next
  case ne: False
  show ?thesis
  proof (induction s rule: length_induct)
    case (1 s)
    show ?case
    proof (cases s)
      case Nil
      then show ?thesis using ne by (simp add: py_replace_Nil)
    next
      case (Cons c cs)
      show ?thesis
      proof (cases "take (length old) s = old")
        case True
        have "length (drop (length old) s) < length s"
          using ne Cons by simp
        then have "set (py_replace old [] (drop (length old) s)) \<subseteq> set (drop (length old) s)"
          using 1 by blast
        also have "\<dots> \<subseteq> set s" by (rule set_drop_subset)
        finally show ?thesis
          using ne True Cons by (simp add: py_replace_Cons)
      next
        case False
        have "set (py_replace old [] cs) \<subseteq> set cs"
          using 1 Cons by simp
        then show ?thesis
          using ne False Cons by (auto simp: py_replace_Cons)
      qed
    qed
  qed
qed

lemma py_replace_char: "py_replace [c] [] s = filter (\<lambda>x. x \<noteq> c) s"
  by (induction s) (simp_all add: py_replace_Nil py_replace_Cons)

lemma py_replace_absent:
  "old \<noteq> [] \<Longrightarrow> \<not> contains old s \<Longrightarrow> py_replace old new s = s"
  by (induction s) (simp_all add: py_replace_Nil py_replace_Cons)

lemma normalize_job_name_fold:
  "normalize_job_name nm =
     fold (\<lambda>d s. py_replace d [] s) decorations (strip (last (py_split 47 nm)))"
  by (simp add: normalize_job_name_def decorations_def Let_def)

lemma fold_replace_absent:
  "\<forall>d\<in>set ds. d \<noteq> [] \<and> \<not> contains d s \<Longrightarrow> fold (\<lambda>d s. py_replace d [] s) ds s = s"
  by (induction ds) (simp_all add: py_replace_absent)

lemma fold_replace_subset: "set (fold (\<lambda>d s. py_replace d [] s) ds s) \<subseteq> set s"
proof (induction ds arbitrary: s)
  case Nil
  show ?case by simp
next
  case (Cons d ds)
  have "set (fold (\<lambda>d s. py_replace d [] s) ds (py_replace d [] s)) \<subseteq> set (py_replace d [] s)"
    by (rule Cons)
  also have "\<dots> \<subseteq> set s" by (rule py_replace_subset)
  finally show ?case by simp
qed

lemma decorations_nonempty: "\<forall>d\<in>set decorations. d \<noteq> []"
  by (simp add: decorations_def lit_def)

lemma normalize_no_paren: "41 \<notin> set (normalize_job_name nm)"
proof -
  let ?s = "py_replace (lit ''build ('') [] (strip (last (py_split 47 nm)))"
  have "normalize_job_name nm = fold (\<lambda>d s. py_replace d [] s) (drop 2 decorations) (py_replace [41] [] ?s)"
    by (simp add: normalize_job_name_fold decorations_def lit_def)
  moreover have "set (fold (\<lambda>d s. py_replace d [] s) (drop 2 decorations) (py_replace [41] [] ?s))
      \<subseteq> set (py_replace [41] [] ?s)"
    by (rule fold_replace_subset)
  moreover have "41 \<notin> set (py_replace [41] [] ?s)"
    by (simp add: py_replace_char)
  ultimately show ?thesis by auto
qed


lemmas normalize_eval = normalize_job_name_def lit_def strip_def py_isspace_def py_replace_Nil
  py_replace_Cons Let_def

lemma normalize_example_matrix:
  "normalize_job_name (lit ''build (ubuntu-22.04, test)'') = lit ''test''"
  by (simp add: normalize_eval)

lemma normalize_example_group:
  "normalize_job_name (lit ''group / actual-job'') = lit ''actual-job''"
  by (simp add: normalize_eval)

text \<open>
  C7, as amended: for every raw job name the normalizer takes the text after the last
  \<^verbatim>\<open>/\<close> (the whole name when there is none), trims the whitespace at both ends, and
  then removes, in this order, every occurrence of \<^verbatim>\<open>build (\<close>, every closing parenthesis
  wherever it stands, and every occurrence of the six OS-version labels. No closing
  parenthesis is left in the result, and a trimmed name in which none of these decorations
  occurs is returned unchanged. \<^verbatim>\<open>build (ubuntu-22.04, test)\<close> gives \<^verbatim>\<open>test\<close> and
  \<^verbatim>\<open>group / actual-job\<close> gives \<^verbatim>\<open>actual-job\<close>.
\<close>

theorem normalize_job_name_rule:
  "(let seg = last (py_split 47 nm); short = strip seg
    in 47 \<notin> set seg \<and> (nm = seg \<or> (\<exists>pre. nm = pre @ 47 # seg))
       \<and> (\<exists>l r. seg = l @ short @ r \<and> (\<forall>c\<in>set l. py_isspace c) \<and> (\<forall>c\<in>set r. py_isspace c))
       \<and> (short \<noteq> [] \<longrightarrow> \<not> py_isspace (hd short) \<and> \<not> py_isspace (last short))
       \<and> normalize_job_name nm = fold (\<lambda>d s. py_replace d [] s) decorations short
       \<and> 41 \<notin> set (normalize_job_name nm)
       \<and> ((\<forall>d\<in>set decorations. \<not> contains d short) \<longrightarrow> normalize_job_name nm = short))
   \<and> normalize_job_name (lit ''build (ubuntu-22.04, test)'') = lit ''test''
   \<and> normalize_job_name (lit ''group / actual-job'') = lit ''actual-job''"
proof -
  let ?seg = "last (py_split 47 nm)"
  let ?short = "strip ?seg"
  have unknown: "normalize_job_name nm = ?short" if "\<forall>d\<in>set decorations. \<not> contains d ?short"
    using that decorations_nonempty
    by (simp add: normalize_job_name_fold fold_replace_absent)
  have "47 \<notin> set ?seg \<and> (nm = ?seg \<or> (\<exists>pre. nm = pre @ 47 # ?seg))"
    by (rule last_py_split)
  moreover have "\<exists>l r. ?seg = l @ ?short @ r \<and> (\<forall>c\<in>set l. py_isspace c) \<and> (\<forall>c\<in>set r. py_isspace c)"
    by (rule strip_decompose)
  moreover have "?short \<noteq> [] \<longrightarrow> \<not> py_isspace (hd ?short) \<and> \<not> py_isspace (last ?short)"
    using strip_ends by blast
  moreover have "normalize_job_name nm = fold (\<lambda>d s. py_replace d [] s) decorations ?short"
    by (rule normalize_job_name_fold)
  moreover have "41 \<notin> set (normalize_job_name nm)"
    by (rule normalize_no_paren)
  ultimately show ?thesis
    using unknown normalize_example_matrix normalize_example_group
    by (simp only: Let_def) blast
qed

theorem normalize_job_name_rule_witness:
  "filter (\<lambda>d. contains d (strip (last (py_split 47 (lit ''ci / lint (fast''))))) decorations = []
   \<and> normalize_job_name (lit ''ci / lint (fast'') = lit ''lint (fast''"
proof -
  let ?nm = "lit ''ci / lint (fast''"
  have short: "strip (last (py_split 47 ?nm)) = lit ''lint (fast''"
    by (simp add: lit_def strip_def py_isspace_def)
  have unknown: "\<forall>d\<in>set decorations. \<not> contains d (strip (last (py_split 47 ?nm)))"
    unfolding short by (simp add: decorations_def lit_def)
  have "(\<forall>d\<in>set decorations. \<not> contains d (strip (last (py_split 47 ?nm))))
      \<longrightarrow> normalize_job_name ?nm = strip (last (py_split 47 ?nm))"
    using normalize_job_name_rule [of ?nm] unfolding Let_def by blast
  with unknown have "normalize_job_name ?nm = strip (last (py_split 47 ?nm))"
    by blast
  moreover from unknown
  have "filter (\<lambda>d. contains d (strip (last (py_split 47 ?nm)))) decorations = []"
    by (simp add: filter_empty_conv)
  ultimately show ?thesis
    using short by simp
qed

text \<open>
  C7 as stated fails on a closing parenthesis that is not at the end: the code removes it,
  where the specification's wording removes a trailing one only.
\<close>

theorem normalize_job_name_paren_counterexample:
  "normalize_job_name (lit ''shard (1) of 2'') = lit ''shard (1 of 2''
   \<and> normalize_spec (lit ''shard (1) of 2'') = lit ''shard (1) of 2''"
  by (simp add: normalize_eval normalize_spec_def strip_trailing_paren_def decorations_def)

section \<open>The comparison renderer\<close>

lemma diff_row_state:
  "diff_row jobs1 jobs2 md bw nw nm (lines, a, b) =
     (lines @ diff_lines jobs1 jobs2 md bw nw nm,
      a + matched_run_delta jobs1 jobs2 nm,
      b + matched_queue_delta jobs1 jobs2 nm)"
  by (simp add: diff_row_def diff_lines_def matched_run_delta_def matched_queue_delta_def Let_def
      split: option.splits)

lemma fold_diff_row:
  "fold (diff_row jobs1 jobs2 md bw nw) names (lines, a, b) =
     (lines @ concat (map (diff_lines jobs1 jobs2 md bw nw) names),
      a + sum_list (map (matched_run_delta jobs1 jobs2) names),
      b + sum_list (map (matched_queue_delta jobs1 jobs2) names))"
  by (induction names arbitrary: lines a b) (simp_all add: diff_row_state add.assoc)

lemma diff_lines_both:
  "map_of jobs1 nm = Some j1 \<Longrightarrow> map_of jobs2 nm = Some j2 \<Longrightarrow>
   diff_lines jobs1 jobs2 md bw nw nm =
     [ljust (take (nat (nw - 2)) nm) nw @ lit '' ''
        @ render_job_bar (queue_duration_seconds j1) (run_duration_seconds j1) md bw @ lit '' ''
        @ rjust (format_duration (total_duration_seconds j1)) 6 @ lit ''  ''
        @ render_job_bar (queue_duration_seconds j2) (run_duration_seconds j2) md bw @ lit '' ''
        @ rjust (format_duration (total_duration_seconds j2)) 6 @ lit ''  ''
        @ rjust (delta_str (run_duration_seconds j2 - run_duration_seconds j1)) 10]"
  by (simp add: diff_lines_def diff_row_def Let_def)

lemma diff_lines_left:
  "map_of jobs1 nm = Some j1 \<Longrightarrow> map_of jobs2 nm = None \<Longrightarrow>
   diff_lines jobs1 jobs2 md bw nw nm =
     [ljust (take (nat (nw - 2)) nm) nw @ lit '' ''
        @ render_job_bar (queue_duration_seconds j1) (run_duration_seconds j1) md bw @ lit '' ''
        @ rjust (format_duration (total_duration_seconds j1)) 6 @ lit ''  ''
        @ ljust (lit ''(missing)'') (bw + 7)]"
  by (simp add: diff_lines_def diff_row_def Let_def)

lemma diff_lines_right:
  "map_of jobs1 nm = None \<Longrightarrow> map_of jobs2 nm = Some j2 \<Longrightarrow>
   diff_lines jobs1 jobs2 md bw nw nm =
     [ljust (take (nat (nw - 2)) nm) nw @ lit '' ''
        @ ljust (lit ''(missing)'') (bw + 7) @ lit ''  ''
        @ render_job_bar (queue_duration_seconds j2) (run_duration_seconds j2) md bw @ lit '' ''
        @ rjust (format_duration (total_duration_seconds j2)) 6]"
  by (simp add: diff_lines_def diff_row_def Let_def)

lemma diff_lines_single:
  "map_of jobs1 nm \<noteq> None \<or> map_of jobs2 nm \<noteq> None \<Longrightarrow>
   length (diff_lines jobs1 jobs2 md bw nw nm) = 1"
  by (auto simp: diff_lines_def diff_row_def Let_def split: option.splits)

lemma all_job_names_set:
  "set (all_job_names jobs1 jobs2) = fst ` set jobs1 \<union> fst ` set jobs2"
  by (simp add: all_job_names_def)

lemma all_job_names_present:
  "nm \<in> set (all_job_names jobs1 jobs2) \<Longrightarrow> map_of jobs1 nm \<noteq> None \<or> map_of jobs2 nm \<noteq> None"
  by (auto simp: all_job_names_set map_of_eq_None_iff)

lemma concat_singletons:
  "\<forall>x\<in>set xs. length (f x) = 1 \<Longrightarrow> concat (map f xs) = map (\<lambda>x. hd (f x)) xs"
proof (induction xs)
  case Nil
  show ?case by simp
next
  case (Cons x xs)
  then have "length (f x) = 1" by simp
  then obtain y where "f x = [y]" by (cases "f x") auto
  with Cons show ?case by simp
qed

lemma diff_rows_map:
  "concat (map (diff_lines jobs1 jobs2 md bw nw) (all_job_names jobs1 jobs2)) =
     map (\<lambda>nm. hd (diff_lines jobs1 jobs2 md bw nw nm)) (all_job_names jobs1 jobs2)"
proof (rule concat_singletons, rule ballI)
  fix nm
  assume "nm \<in> set (all_job_names jobs1 jobs2)"
  then have "map_of jobs1 nm \<noteq> None \<or> map_of jobs2 nm \<noteq> None"
    by (rule all_job_names_present)
  then show "length (diff_lines jobs1 jobs2 md bw nw nm) = 1"
    by (rule diff_lines_single)
qed

lemma render_unified_diff_lines_structure:
  "render_unified_diff_lines run1 run2 width =
     (let jobs1 = jobs_by_name (WorkflowRun.jobs run1);
          jobs2 = jobs_by_name (WorkflowRun.jobs run2);
          names = all_job_names jobs1 jobs2;
          max_duration = diff_max_duration jobs1 jobs2 names
      in diff_header run1 run2 width
         @ map (\<lambda>nm. hd (diff_lines jobs1 jobs2 max_duration 16 28 nm)) names
         @ [py_repeat (lit ''-'') width, []]
         @ diff_summary run1 run2
         @ [[], py_repeat (lit ''='') width, lit ''KEY INSIGHT:'']
         @ key_insight (total_run_delta run1 run2) (total_queue_delta run1 run2)
             (get_wall_time run2 - get_wall_time run1)
         @ [py_repeat (lit ''='') width, [],
            lit ''Legend: '' @ [9608] @ lit '' running  '' @ [9617] @ lit '' queued''])"
  by (simp add: render_unified_diff_lines_def Let_def fold_diff_row diff_rows_map
      diff_header_def diff_summary_def total_run_delta_def total_queue_delta_def)

lemma length_diff_header: "length (diff_header run1 run2 width) = 6"
  by (simp add: diff_header_def)

lemma diff_line_nth:
  assumes "i < length (all_job_names (jobs_by_name (WorkflowRun.jobs run1))
                         (jobs_by_name (WorkflowRun.jobs run2)))"
  shows "render_unified_diff_lines run1 run2 width ! (6 + i) =
     (let jobs1 = jobs_by_name (WorkflowRun.jobs run1);
          jobs2 = jobs_by_name (WorkflowRun.jobs run2);
          names = all_job_names jobs1 jobs2
      in hd (diff_lines jobs1 jobs2 (diff_max_duration jobs1 jobs2 names) 16 28 (names ! i)))"
  using assms
  by (simp add: render_unified_diff_lines_structure Let_def nth_append length_diff_header)


lemma delta_str_same: "delta_str d = lit ''~same'' \<longleftrightarrow> \<bar>d\<bar> < 60"
  by (simp add: delta_str_def lit_def)

lemma delta_str_plus: "60 \<le> d \<Longrightarrow> delta_str d = lit ''+'' @ format_duration d"
  by (simp add: delta_str_def)

lemma delta_str_minus: "d \<le> - 60 \<Longrightarrow> delta_str d = lit ''-'' @ format_duration (- d)"
  by (simp add: delta_str_def)

lemmas job_eval = mk_job_def mk_run_def queue_duration_seconds_def run_duration_seconds_def
  total_duration_seconds_def

lemma jobs_by_name_build:
  "jobs_by_name [mk_job ''build'' c s (Some e)] = [(lit ''build'', mk_job ''build'' c s (Some e))]"
  by (simp add: jobs_by_name_def mk_job_def normalize_eval)

lemma scenario_names:
  "all_job_names [(lit ''build'', a)] [(lit ''build'', b)] = [lit ''build'']"
  by (simp add: all_job_names_def)

lemma scenario_max_duration:
  "diff_max_duration [(lit ''build'', mk_job ''build'' 0 (Some 30) (Some 150))]
     [(lit ''build'', mk_job ''build'' 0 (Some 30) (Some 80))] [lit ''build''] = 150"
  by (simp add: diff_max_duration_def all_durations_def py_max_def job_eval Let_def)

lemma scenario_row:
  "render_unified_diff_lines scenario_run1 scenario_run2 140 ! 6 =
     lit ''build'' @ replicate 23 32 @ lit '' ''
       @ replicate 3 9617 @ replicate 13 9608 @ lit '' '' @ lit '' 2m30s'' @ lit ''  ''
       @ replicate 3 9617 @ replicate 5 9608 @ replicate 8 32 @ lit '' '' @ lit '' 1m20s''
       @ lit ''  '' @ lit ''    -1m10s''"
proof -
  let ?a = "mk_job ''build'' 0 (Some 30) (Some 150)"
  let ?b = "mk_job ''build'' 0 (Some 30) (Some 80)"
  have bar1: "render_job_bar 30 120 150 16 = replicate 3 9617 @ replicate 13 9608"
    by (simp add: render_job_bar_def py_repeat_single py_int_def ljust_def Let_def)
  have bar2: "render_job_bar 30 50 150 16 = replicate 3 9617 @ replicate 5 9608 @ replicate 8 32"
    by (simp add: render_job_bar_def py_repeat_single py_int_def ljust_def Let_def)
  have t1: "rjust (format_duration 150) 6 = lit '' 2m30s''"
    by (simp add: rjust_def fd_eval)
  have t2: "rjust (format_duration 80) 6 = lit '' 1m20s''"
    by (simp add: rjust_def fd_eval)
  have "delta_str (- 70) = lit ''-1m10s''"
    by (simp add: delta_str_def fd_eval)
  then have d: "rjust (delta_str (- 70)) 10 = lit ''    -1m10s''"
    by (simp add: rjust_def lit_def eval_nat_numeral)
  have n: "ljust (take 26 (lit ''build'')) 28 = lit ''build'' @ replicate 23 32"
    by (simp add: ljust_def lit_def)
  have "render_unified_diff_lines scenario_run1 scenario_run2 140 ! (6 + 0) =
      hd (diff_lines [(lit ''build'', ?a)] [(lit ''build'', ?b)] 150 16 28 (lit ''build''))"
    by (subst diff_line_nth)
      (simp_all add: scenario_run1_def scenario_run2_def mk_run_def jobs_by_name_build
        scenario_names scenario_max_duration Let_def)
  also have "\<dots> = ljust (take 26 (lit ''build'')) 28 @ lit '' ''
        @ render_job_bar 30 120 150 16 @ lit '' '' @ rjust (format_duration 150) 6 @ lit ''  ''
        @ render_job_bar 30 50 150 16 @ lit '' '' @ rjust (format_duration 80) 6 @ lit ''  ''
        @ rjust (delta_str (- 70)) 10"
    by (simp add: diff_lines_both job_eval)
  finally show ?thesis
    by (simp only: bar1 bar2 t1 t2 d n add_0_right append_assoc)
qed

text \<open>
  C4: in the comparison, the row of every normalized name present in both runs (row \<open>i\<close>
  of the table stands at line \<open>6 + i\<close>) ends with the delta tag of the difference between
  the run durations of the second and the first run's job. The tag is \<^verbatim>\<open>~same\<close> exactly
  when the difference is below 60 seconds in absolute value; otherwise it is \<^verbatim>\<open>+\<close> and the
  formatted difference when positive, \<^verbatim>\<open>-\<close> and the formatted negated difference when
  negative. In the scenario of the specification the tag is \<^verbatim>\<open>-1m10s\<close>.
\<close>

theorem diff_delta_tag:
  "(let jobs1 = jobs_by_name (WorkflowRun.jobs run1);
        jobs2 = jobs_by_name (WorkflowRun.jobs run2);
        names = all_job_names jobs1 jobs2;
        max_duration = diff_max_duration jobs1 jobs2 names
    in \<forall>i<length names. \<forall>j1 j2.
         map_of jobs1 (names ! i) = Some j1 \<and> map_of jobs2 (names ! i) = Some j2 \<longrightarrow>
         render_unified_diff_lines run1 run2 width ! (6 + i) =
           ljust (take 26 (names ! i)) 28 @ lit '' ''
             @ render_job_bar (queue_duration_seconds j1) (run_duration_seconds j1)
                 max_duration 16
             @ lit '' '' @ rjust (format_duration (total_duration_seconds j1)) 6 @ lit ''  ''
             @ render_job_bar (queue_duration_seconds j2) (run_duration_seconds j2)
                 max_duration 16
             @ lit '' '' @ rjust (format_duration (total_duration_seconds j2)) 6 @ lit ''  ''
             @ rjust (delta_str (run_duration_seconds j2 - run_duration_seconds j1)) 10)
   \<and> (delta_str run_delta = lit ''~same'' \<longleftrightarrow> \<bar>run_delta\<bar> < 60)
   \<and> (60 \<le> run_delta \<longrightarrow> delta_str run_delta = lit ''+'' @ format_duration run_delta)
   \<and> (run_delta \<le> - 60 \<longrightarrow> delta_str run_delta = lit ''-'' @ format_duration (- run_delta))
   \<and> delta_str (50 - 120) = lit ''-1m10s''
   \<and> render_unified_diff_lines scenario_run1 scenario_run2 140 ! 6 =
       lit ''build'' @ replicate 23 32 @ lit '' ''
         @ replicate 3 9617 @ replicate 13 9608 @ lit '' '' @ lit '' 2m30s'' @ lit ''  ''
         @ replicate 3 9617 @ replicate 5 9608 @ replicate 8 32 @ lit '' '' @ lit '' 1m20s''
         @ lit ''  '' @ lit ''    -1m10s''"
proof -
  have rows: "render_unified_diff_lines run1 run2 width ! (6 + i) =
           ljust (take 26 (names ! i)) 28 @ lit '' ''
             @ render_job_bar (queue_duration_seconds j1) (run_duration_seconds j1)
                 (diff_max_duration jobs1 jobs2 names) 16
             @ lit '' '' @ rjust (format_duration (total_duration_seconds j1)) 6 @ lit ''  ''
             @ render_job_bar (queue_duration_seconds j2) (run_duration_seconds j2)
                 (diff_max_duration jobs1 jobs2 names) 16
             @ lit '' '' @ rjust (format_duration (total_duration_seconds j2)) 6 @ lit ''  ''
             @ rjust (delta_str (run_duration_seconds j2 - run_duration_seconds j1)) 10"
    if "jobs1 = jobs_by_name (WorkflowRun.jobs run1)"
      and "jobs2 = jobs_by_name (WorkflowRun.jobs run2)"
      and "names = all_job_names jobs1 jobs2"
      and "i < length names"
      and "map_of jobs1 (names ! i) = Some j1"
      and "map_of jobs2 (names ! i) = Some j2"
    for jobs1 jobs2 names i j1 j2
    using that by (simp add: diff_line_nth Let_def diff_lines_both)
  have tag: "delta_str (50 - 120) = lit ''-1m10s''"
    by (simp add: delta_str_def fd_eval)
  show ?thesis
    unfolding Let_def
    using rows delta_str_same [of run_delta] delta_str_plus [of run_delta]
      delta_str_minus [of run_delta] tag scenario_row
    by blast
qed


lemma scenario_jobs:
  "jobs_by_name (WorkflowRun.jobs scenario_run1) = [(lit ''build'', mk_job ''build'' 0 (Some 30) (Some 150))]"
  "jobs_by_name (WorkflowRun.jobs scenario_run2) = [(lit ''build'', mk_job ''build'' 0 (Some 30) (Some 80))]"
  by (simp_all add: scenario_run1_def scenario_run2_def mk_run_def jobs_by_name_build)

theorem diff_delta_tag_witness:
  "(0::nat) < length (all_job_names (jobs_by_name (WorkflowRun.jobs scenario_run1))
                        (jobs_by_name (WorkflowRun.jobs scenario_run2)))
   \<and> map_of (jobs_by_name (WorkflowRun.jobs scenario_run1)) (lit ''build'')
       = Some (mk_job ''build'' 0 (Some 30) (Some 150))
   \<and> map_of (jobs_by_name (WorkflowRun.jobs scenario_run2)) (lit ''build'')
       = Some (mk_job ''build'' 0 (Some 30) (Some 80))
   \<and> (- 70 :: real) \<le> - 60
   \<and> render_unified_diff_lines scenario_run1 scenario_run2 140 ! 6 =
       ljust (lit ''build'') 28 @ lit '' '' @ render_job_bar 30 120 150 16 @ lit '' ''
         @ rjust (format_duration 150) 6 @ lit ''  '' @ render_job_bar 30 50 150 16 @ lit '' ''
         @ rjust (format_duration 80) 6 @ lit ''  '' @ rjust (lit ''-'' @ format_duration 70) 10"
proof -
  let ?a = "mk_job ''build'' 0 (Some 30) (Some 150)"
  let ?b = "mk_job ''build'' 0 (Some 30) (Some 80)"
  let ?names = "all_job_names [(lit ''build'', ?a)] [(lit ''build'', ?b)]"
  have names: "?names = [lit ''build'']" by (rule scenario_names)
  note inst = diff_delta_tag [of scenario_run1 scenario_run2 140 "- 70", unfolded Let_def scenario_jobs]
  from inst have "\<forall>i<length ?names. \<forall>j1 j2.
         map_of [(lit ''build'', ?a)] (?names ! i) = Some j1
         \<and> map_of [(lit ''build'', ?b)] (?names ! i) = Some j2 \<longrightarrow>
         render_unified_diff_lines scenario_run1 scenario_run2 140 ! (6 + i) =
           ljust (take 26 (?names ! i)) 28 @ lit '' ''
             @ render_job_bar (queue_duration_seconds j1) (run_duration_seconds j1)
                 (diff_max_duration [(lit ''build'', ?a)] [(lit ''build'', ?b)] ?names) 16
             @ lit '' '' @ rjust (format_duration (total_duration_seconds j1)) 6 @ lit ''  ''
             @ render_job_bar (queue_duration_seconds j2) (run_duration_seconds j2)
                 (diff_max_duration [(lit ''build'', ?a)] [(lit ''build'', ?b)] ?names) 16
             @ lit '' '' @ rjust (format_duration (total_duration_seconds j2)) 6 @ lit ''  ''
             @ rjust (delta_str (run_duration_seconds j2 - run_duration_seconds j1)) 10"
    by blast
  from this [rule_format, of 0 ?a ?b, unfolded names scenario_max_duration]
  have row: "render_unified_diff_lines scenario_run1 scenario_run2 140 ! 6 =
           ljust (take 26 (lit ''build'')) 28 @ lit '' ''
             @ render_job_bar 30 120 150 16
             @ lit '' '' @ rjust (format_duration 150) 6 @ lit ''  ''
             @ render_job_bar 30 50 150 16
             @ lit '' '' @ rjust (format_duration 80) 6 @ lit ''  ''
             @ rjust (delta_str (- 70)) 10"
    by (simp add: job_eval)
  from inst have "delta_str (- 70) = lit ''-'' @ format_duration (- (- 70))"
    by simp
  with row have c4: "render_unified_diff_lines scenario_run1 scenario_run2 140 ! 6 =
       ljust (lit ''build'') 28 @ lit '' '' @ render_job_bar 30 120 150 16 @ lit '' ''
         @ rjust (format_duration 150) 6 @ lit ''  '' @ render_job_bar 30 50 150 16 @ lit '' ''
         @ rjust (format_duration 80) 6 @ lit ''  '' @ rjust (lit ''-'' @ format_duration 70) 10"
    by (simp add: lit_def)
  have c1: "0 < length (all_job_names (jobs_by_name (WorkflowRun.jobs scenario_run1))
                        (jobs_by_name (WorkflowRun.jobs scenario_run2)))"
    unfolding scenario_jobs names by simp
  have c2: "map_of (jobs_by_name (WorkflowRun.jobs scenario_run1)) (lit ''build'') = Some ?a"
    unfolding scenario_jobs by simp
  have c3: "map_of (jobs_by_name (WorkflowRun.jobs scenario_run2)) (lit ''build'') = Some ?b"
    unfolding scenario_jobs by simp
  from c1 c2 c3 c4 show ?thesis
    by simp
qed

lemma map_of_fold_update:
  "map_of (fold (\<lambda>j d. AList.update (f j) j d) xs d) k =
     (case filter (\<lambda>j. f j = k) xs of
        [] \<Rightarrow> map_of d k
      | y # ys \<Rightarrow> Some (last (y # ys)))"
proof (induction xs arbitrary: d)
  case Nil
  show ?case by simp
next
  case (Cons x xs)
  show ?case
    by (simp add: Cons update_conv' split: list.splits)
qed

lemma jobs_by_name_lookup:
  "map_of (jobs_by_name js) k =
     (case filter (\<lambda>j. Job.completed_at j \<noteq> None \<and> normalize_job_name (Job.name j) = k) js of
        [] \<Rightarrow> None
      | y # ys \<Rightarrow> Some (last (y # ys)))"
proof -
  have "filter (\<lambda>j. normalize_job_name (Job.name j) = k) (filter (\<lambda>j. Job.completed_at j \<noteq> None) js)
      = filter (\<lambda>j. Job.completed_at j \<noteq> None \<and> normalize_job_name (Job.name j) = k) js"
    by (simp add: conj_commute)
  then show ?thesis
    unfolding jobs_by_name_def map_of_fold_update by (simp split: list.splits)
qed

lemma jobs_by_name_keys:
  "fst ` set (jobs_by_name js) =
     (\<lambda>j. normalize_job_name (Job.name j)) ` {j \<in> set js. Job.completed_at j \<noteq> None}"
proof -
  have "k \<in> dom (map_of (jobs_by_name js)) \<longleftrightarrow>
      k \<in> (\<lambda>j. normalize_job_name (Job.name j)) ` {j \<in> set js. Job.completed_at j \<noteq> None}" for k
  proof -
    have "k \<in> dom (map_of (jobs_by_name js)) \<longleftrightarrow>
        filter (\<lambda>j. Job.completed_at j \<noteq> None \<and> normalize_job_name (Job.name j) = k) js \<noteq> []"
      by (auto simp: jobs_by_name_lookup dom_def split: list.splits)
    also have "\<dots> \<longleftrightarrow> (\<exists>j\<in>set js. Job.completed_at j \<noteq> None \<and> normalize_job_name (Job.name j) = k)"
      by (simp add: filter_empty_conv)
    finally show ?thesis by auto
  qed
  then have "dom (map_of (jobs_by_name js)) =
      (\<lambda>j. normalize_job_name (Job.name j)) ` {j \<in> set js. Job.completed_at j \<noteq> None}"
    by (rule set_eqI)
  then show ?thesis
    by (simp only: dom_map_of_conv_image_fst)
qed

lemma all_job_names_sorted:
  "sorted_wrt (\<lambda>a b. (a, b) \<in> lexord {(u, v). u < v}) (all_job_names jobs1 jobs2)"
proof -
  have "sorted_wrt (<) (all_job_names jobs1 jobs2)"
    by (simp add: all_job_names_def)
  then show ?thesis
    by (simp add: list_less_def [abs_def])
qed

lemma all_job_names_code:
  "all_job_names jobs1 jobs2 = sort (remdups (map fst jobs1 @ map fst jobs2))"
proof -
  have "set (map fst jobs1) \<union> set (map fst jobs2) = set (map fst jobs1 @ map fst jobs2)"
    by simp
  then show ?thesis
    unfolding all_job_names_def by (simp only: sorted_list_of_set_sort_remdups)
qed

lemma rows_end_nth:
  "render_unified_diff_lines run1 run2 width
     ! (6 + length (all_job_names (jobs_by_name (WorkflowRun.jobs run1))
                      (jobs_by_name (WorkflowRun.jobs run2))))
   = py_repeat (lit ''-'') width"
  by (simp add: render_unified_diff_lines_structure Let_def nth_append length_diff_header)

text \<open>
  C5: each run's mapping sends a normalized name to the last job of the run, in order, that
  has a completion time and that name, so a later job overwrites an earlier one of the same
  normalized name and jobs without a completion time are left out. The rows follow the
  names of both mappings together, each once, in strictly ascending lexicographic order of
  code points: row \<open>i\<close> stands at line \<open>6 + i\<close> and the closing rule follows the last row.
  A name present in one run only gets that run's bar and duration, with the marker
  \<^verbatim>\<open>(missing)\<close> on the side of the other run.
\<close>

theorem diff_matching:
  "map_of (jobs_by_name js) k =
     (case filter (\<lambda>j. Job.completed_at j \<noteq> None \<and> normalize_job_name (Job.name j) = k) js of
        [] \<Rightarrow> None
      | y # ys \<Rightarrow> Some (last (y # ys)))
   \<and> (let jobs1 = jobs_by_name (WorkflowRun.jobs run1);
           jobs2 = jobs_by_name (WorkflowRun.jobs run2);
           names = all_job_names jobs1 jobs2;
           max_duration = diff_max_duration jobs1 jobs2 names
       in set names =
            (\<lambda>j. normalize_job_name (Job.name j))
              ` {j \<in> set (WorkflowRun.jobs run1) \<union> set (WorkflowRun.jobs run2).
                   Job.completed_at j \<noteq> None}
          \<and> sorted_wrt (\<lambda>a b. (a, b) \<in> lexord {(u, v). u < v}) names
          \<and> render_unified_diff_lines run1 run2 width ! (6 + length names)
              = py_repeat (lit ''-'') width
          \<and> (\<forall>i<length names.
                (\<forall>j1. map_of jobs1 (names ! i) = Some j1 \<and> map_of jobs2 (names ! i) = None \<longrightarrow>
                   render_unified_diff_lines run1 run2 width ! (6 + i) =
                     ljust (take 26 (names ! i)) 28 @ lit '' ''
                       @ render_job_bar (queue_duration_seconds j1) (run_duration_seconds j1)
                           max_duration 16
                       @ lit '' '' @ rjust (format_duration (total_duration_seconds j1)) 6
                       @ lit ''  '' @ ljust (lit ''(missing)'') 23)
              \<and> (\<forall>j2. map_of jobs1 (names ! i) = None \<and> map_of jobs2 (names ! i) = Some j2 \<longrightarrow>
                   render_unified_diff_lines run1 run2 width ! (6 + i) =
                     ljust (take 26 (names ! i)) 28 @ lit '' ''
                       @ ljust (lit ''(missing)'') 23 @ lit ''  ''
                       @ render_job_bar (queue_duration_seconds j2) (run_duration_seconds j2)
                           max_duration 16
                       @ lit '' '' @ rjust (format_duration (total_duration_seconds j2)) 6)))"
proof -
  let ?jobs1 = "jobs_by_name (WorkflowRun.jobs run1)"
  let ?jobs2 = "jobs_by_name (WorkflowRun.jobs run2)"
  let ?names = "all_job_names ?jobs1 ?jobs2"
  let ?lines = "render_unified_diff_lines run1 run2 width"
  have keys: "set ?names =
      (\<lambda>j. normalize_job_name (Job.name j))
        ` {j \<in> set (WorkflowRun.jobs run1) \<union> set (WorkflowRun.jobs run2).
             Job.completed_at j \<noteq> None}"
    unfolding all_job_names_set jobs_by_name_keys by blast
  have left: "?lines ! (6 + i) =
      ljust (take 26 (?names ! i)) 28 @ lit '' ''
        @ render_job_bar (queue_duration_seconds j1) (run_duration_seconds j1)
            (diff_max_duration ?jobs1 ?jobs2 ?names) 16
        @ lit '' '' @ rjust (format_duration (total_duration_seconds j1)) 6
        @ lit ''  '' @ ljust (lit ''(missing)'') 23"
    if "i < length ?names" "map_of ?jobs1 (?names ! i) = Some j1"
      "map_of ?jobs2 (?names ! i) = None" for i j1
    using that by (simp add: diff_line_nth Let_def diff_lines_left)
  have right: "?lines ! (6 + i) =
      ljust (take 26 (?names ! i)) 28 @ lit '' ''
        @ ljust (lit ''(missing)'') 23 @ lit ''  ''
        @ render_job_bar (queue_duration_seconds j2) (run_duration_seconds j2)
            (diff_max_duration ?jobs1 ?jobs2 ?names) 16
        @ lit '' '' @ rjust (format_duration (total_duration_seconds j2)) 6"
    if "i < length ?names" "map_of ?jobs1 (?names ! i) = None"
      "map_of ?jobs2 (?names ! i) = Some j2" for i j2
    using that by (simp add: diff_line_nth Let_def diff_lines_right)
  show ?thesis
    unfolding Let_def
    using jobs_by_name_lookup [of js k] keys all_job_names_sorted [of ?jobs1 ?jobs2]
      rows_end_nth [of run1 run2 width] left right
    by blast
qed


lemma example_jobs:
  "jobs_by_name (WorkflowRun.jobs example_run1) =
     [(lit ''build'', mk_job ''build'' 0 (Some 30) (Some 150)),
      (lit ''lint'', mk_job ''b / lint'' 0 (Some 20) (Some 60))]"
  "jobs_by_name (WorkflowRun.jobs example_run2) =
     [(lit ''build'', mk_job ''build'' 0 (Some 30) (Some 80)),
      (lit ''docs'', mk_job ''docs'' 0 (Some 5) (Some 20))]"
  by (simp_all add: example_run1_def example_run2_def mk_run_def jobs_by_name_def mk_job_def
      normalize_eval)

lemma example_names:
  "all_job_names [(lit ''build'', a), (lit ''lint'', b)] [(lit ''build'', c), (lit ''docs'', d)]
     = [lit ''build'', lit ''docs'', lit ''lint'']"
  by (simp add: all_job_names_code lit_def)

lemma example_max_duration:
  "diff_max_duration
     [(lit ''build'', mk_job ''build'' 0 (Some 30) (Some 150)),
      (lit ''lint'', mk_job ''b / lint'' 0 (Some 20) (Some 60))]
     [(lit ''build'', mk_job ''build'' 0 (Some 30) (Some 80)),
      (lit ''docs'', mk_job ''docs'' 0 (Some 5) (Some 20))]
     [lit ''build'', lit ''docs'', lit ''lint''] = 150"
  by (simp add: diff_max_duration_def all_durations_def py_max_def job_eval Let_def lit_def)

theorem diff_matching_witness:
  "map_of (jobs_by_name (WorkflowRun.jobs example_run1)) (lit ''lint'')
     = Some (mk_job ''b / lint'' 0 (Some 20) (Some 60))
   \<and> all_job_names (jobs_by_name (WorkflowRun.jobs example_run1))
         (jobs_by_name (WorkflowRun.jobs example_run2))
       = [lit ''build'', lit ''docs'', lit ''lint'']
   \<and> map_of (jobs_by_name (WorkflowRun.jobs example_run1)) (lit ''docs'') = None
   \<and> map_of (jobs_by_name (WorkflowRun.jobs example_run2)) (lit ''lint'') = None
   \<and> render_unified_diff_lines example_run1 example_run2 140 ! 7 =
       ljust (lit ''docs'') 28 @ lit '' '' @ ljust (lit ''(missing)'') 23 @ lit ''  ''
         @ render_job_bar 5 15 150 16 @ lit '' '' @ rjust (format_duration 20) 6
   \<and> render_unified_diff_lines example_run1 example_run2 140 ! 8 =
       ljust (lit ''lint'') 28 @ lit '' '' @ render_job_bar 20 40 150 16 @ lit '' ''
         @ rjust (format_duration 60) 6 @ lit ''  '' @ ljust (lit ''(missing)'') 23
   \<and> render_unified_diff_lines example_run1 example_run2 140 ! 9 = py_repeat (lit ''-'') 140"
proof -
  let ?b1 = "mk_job ''build'' 0 (Some 30) (Some 150)"
  let ?l1 = "mk_job ''b / lint'' 0 (Some 20) (Some 60)"
  let ?b2 = "mk_job ''build'' 0 (Some 30) (Some 80)"
  let ?d2 = "mk_job ''docs'' 0 (Some 5) (Some 20)"
  let ?jobs1 = "[(lit ''build'', ?b1), (lit ''lint'', ?l1)]"
  let ?jobs2 = "[(lit ''build'', ?b2), (lit ''docs'', ?d2)]"
  let ?names = "[lit ''build'', lit ''docs'', lit ''lint'']"
  let ?lines = "render_unified_diff_lines example_run1 example_run2 140"
  note inst = diff_matching [of "WorkflowRun.jobs example_run1" "lit ''lint''" example_run1
      example_run2 140, unfolded Let_def example_jobs example_names example_max_duration]
  have lint: "filter (\<lambda>j. Job.completed_at j \<noteq> None \<and> normalize_job_name (Job.name j) = lit ''lint'')
      (WorkflowRun.jobs example_run1) = [mk_job ''a / lint'' 0 (Some 10) (Some 40), ?l1]"
    by (simp add: example_run1_def mk_run_def mk_job_def normalize_eval)
  from inst have "map_of ?jobs1 (lit ''lint'') =
      (case filter (\<lambda>j. Job.completed_at j \<noteq> None \<and> normalize_job_name (Job.name j) = lit ''lint'')
              (WorkflowRun.jobs example_run1) of
         [] \<Rightarrow> None | y # ys \<Rightarrow> Some (last (y # ys)))"
    by blast
  then have c1: "map_of ?jobs1 (lit ''lint'') = Some ?l1"
    unfolding lint by simp
  have c3: "map_of ?jobs1 (lit ''docs'') = None"
    by (simp add: lit_def)
  have c4: "map_of ?jobs2 (lit ''lint'') = None"
    by (simp add: lit_def)
  have d2: "map_of ?jobs2 (lit ''docs'') = Some ?d2"
    by (simp add: lit_def)
  from inst have rows: "\<forall>i<length ?names.
      (\<forall>j1. map_of ?jobs1 (?names ! i) = Some j1 \<and> map_of ?jobs2 (?names ! i) = None \<longrightarrow>
         ?lines ! (6 + i) =
           ljust (take 26 (?names ! i)) 28 @ lit '' ''
             @ render_job_bar (queue_duration_seconds j1) (run_duration_seconds j1) 150 16
             @ lit '' '' @ rjust (format_duration (total_duration_seconds j1)) 6
             @ lit ''  '' @ ljust (lit ''(missing)'') 23)
      \<and> (\<forall>j2. map_of ?jobs1 (?names ! i) = None \<and> map_of ?jobs2 (?names ! i) = Some j2 \<longrightarrow>
         ?lines ! (6 + i) =
           ljust (take 26 (?names ! i)) 28 @ lit '' ''
             @ ljust (lit ''(missing)'') 23 @ lit ''  ''
             @ render_job_bar (queue_duration_seconds j2) (run_duration_seconds j2) 150 16
             @ lit '' '' @ rjust (format_duration (total_duration_seconds j2)) 6)"
    by blast
  have c5: "?lines ! 7 =
      ljust (lit ''docs'') 28 @ lit '' '' @ ljust (lit ''(missing)'') 23 @ lit ''  ''
        @ render_job_bar 5 15 150 16 @ lit '' '' @ rjust (format_duration 20) 6"
    using rows [THEN spec, of 1] by (simp add: lit_def job_eval)
  have c6: "?lines ! 8 =
      ljust (lit ''lint'') 28 @ lit '' '' @ render_job_bar 20 40 150 16 @ lit '' ''
        @ rjust (format_duration 60) 6 @ lit ''  '' @ ljust (lit ''(missing)'') 23"
    using rows [THEN spec, of 2] by (simp add: lit_def job_eval)
  from inst have c7: "?lines ! 9 = py_repeat (lit ''-'') 140"
    by simp
  show ?thesis
    unfolding example_jobs example_names
    using c1 c3 c4 c5 c6 c7 by blast
qed

lemma key_insight_placement:
  "render_unified_diff_lines run1 run2 width =
     (let jobs1 = jobs_by_name (WorkflowRun.jobs run1);
          jobs2 = jobs_by_name (WorkflowRun.jobs run2);
          names = all_job_names jobs1 jobs2
      in take (13 + length names) (render_unified_diff_lines run1 run2 width)
         @ [lit ''KEY INSIGHT:'']
         @ key_insight (total_run_delta run1 run2) (total_queue_delta run1 run2)
             (get_wall_time run2 - get_wall_time run1)
         @ [py_repeat (lit ''='') width, [],
            lit ''Legend: '' @ [9608] @ lit '' running  '' @ [9617] @ lit '' queued''])"
proof -
  have l: "length (diff_summary run1 run2) = 3"
    by (simp add: diff_summary_def Let_def)
  show ?thesis
    by (simp add: render_unified_diff_lines_structure Let_def length_diff_header l)
qed

lemma key_insight_first:
  "hd (key_insight r q w) =
     (if r < - 60 then
        lit ''  Run 2 saved '' @ format_duration (- r)
          @ lit '' in actual build time across all jobs.''
      else if 60 < r then
        lit ''  Run 2 spent '' @ format_duration r
          @ lit '' MORE in actual build time across all jobs.''
      else lit ''  Actual build times are roughly the same.'')"
  by (simp add: key_insight_def)

lemma key_insight_length:
  "length (key_insight r q w) =
     1 + (if 60 < \<bar>q\<bar> then 1 else 0) + (if r < 0 \<and> w \<noteq> 0 then 2 else 0)"
  by (auto simp: key_insight_def)

lemma key_insight_but:
  "lit ''  BUT Run 2 had '' @ format_duration q @ lit '' MORE queue wait time.''
     \<in> set (key_insight r q w) \<longleftrightarrow> 60 < q"
  by (auto simp: key_insight_def lit_def)

lemma key_insight_and:
  "lit ''  AND Run 2 had '' @ format_duration (- q) @ lit '' LESS queue wait time.''
     \<in> set (key_insight r q w) \<longleftrightarrow> q < - 60"
  by (auto simp: key_insight_def lit_def)

lemma key_insight_masked:
  "lit ''  Despite faster builds, wall clock time increased due to runner queue delays!''
     \<in> set (key_insight r q w) \<longleftrightarrow> 0 < w \<and> r < 0"
  by (auto simp: key_insight_def lit_def)

lemma key_insight_won:
  "lit ''  Build time savings translated to faster wall clock time.''
     \<in> set (key_insight r q w) \<longleftrightarrow> w < 0 \<and> r < 0"
  by (auto simp: key_insight_def lit_def)


lemma scenario_deltas:
  "total_run_delta scenario_run1 scenario_run2 = - 70"
  "total_queue_delta scenario_run1 scenario_run2 = 0"
  "get_wall_time scenario_run1 = 150"
  "get_wall_time scenario_run2 = 80"
proof -
  show "total_run_delta scenario_run1 scenario_run2 = - 70"
    unfolding total_run_delta_def Let_def scenario_jobs scenario_names
    by (simp add: matched_run_delta_def job_eval)
  show "total_queue_delta scenario_run1 scenario_run2 = 0"
    unfolding total_queue_delta_def Let_def scenario_jobs scenario_names
    by (simp add: matched_queue_delta_def job_eval)
  show "get_wall_time scenario_run1 = 150"
    by (simp add: get_wall_time_def scenario_run1_def mk_run_def mk_job_def py_min_def py_max_def)
  show "get_wall_time scenario_run2 = 80"
    by (simp add: get_wall_time_def scenario_run2_def mk_run_def mk_job_def py_min_def py_max_def)
qed

lemma scenario_length_names:
  "length (all_job_names (jobs_by_name (WorkflowRun.jobs scenario_run1))
             (jobs_by_name (WorkflowRun.jobs scenario_run2))) = 1"
  unfolding scenario_jobs scenario_names by simp

lemma drop_of_take_append:
  assumes "xs = take n xs @ rest"
  shows "drop n xs = rest"
  by (metis assms append_take_drop_id same_append_eq)

lemma scenario_key_insight:
  "drop 14 (render_unified_diff_lines scenario_run1 scenario_run2 140) =
     [lit ''KEY INSIGHT:'',
      lit ''  Run 2 saved 1m10s in actual build time across all jobs.'',
      [],
      lit ''  Build time savings translated to faster wall clock time.'',
      py_repeat (lit ''='') 140,
      [],
      lit ''Legend: '' @ [9608] @ lit '' running  '' @ [9617] @ lit '' queued'']"
proof -
  have k: "key_insight (- 70) 0 (- 70) =
      [lit ''  Run 2 saved 1m10s in actual build time across all jobs.'', [],
       lit ''  Build time savings translated to faster wall clock time.'']"
    by (simp add: key_insight_def fd_eval)
  have "render_unified_diff_lines scenario_run1 scenario_run2 140 =
      take 14 (render_unified_diff_lines scenario_run1 scenario_run2 140)
        @ [lit ''KEY INSIGHT:'',
           lit ''  Run 2 saved 1m10s in actual build time across all jobs.'', [],
           lit ''  Build time savings translated to faster wall clock time.'',
           py_repeat (lit ''='') 140, [],
           lit ''Legend: '' @ [9608] @ lit '' running  '' @ [9617] @ lit '' queued'']"
    using key_insight_placement [of scenario_run1 scenario_run2 140]
    by (simp add: Let_def scenario_length_names scenario_deltas k)
  then show ?thesis
    by (rule drop_of_take_append)
qed


text \<open>
  C6, as amended: the lines after \<^verbatim>\<open>KEY INSIGHT:\<close> are computed from the aggregate
  run-duration and queue-duration deltas of the jobs present in both runs and from the
  wall-clock delta. The first line reports a saving when the run delta is below -60 seconds,
  a regression when it is above 60, and parity otherwise; a queue line follows exactly when
  the queue delta is above 60 (more wait) or below -60 (less wait). The cross-cutting
  insight is written exactly when the run delta is negative and the wall-clock delta is not
  zero: the queue-delay line when the wall clock rose, opposite to the build time, and the
  end-to-end-win line when the wall clock fell together with the build time.
\<close>

theorem key_insight_classification:
  "render_unified_diff_lines run1 run2 width =
     take (13 + length (all_job_names (jobs_by_name (WorkflowRun.jobs run1))
                          (jobs_by_name (WorkflowRun.jobs run2))))
       (render_unified_diff_lines run1 run2 width)
     @ [lit ''KEY INSIGHT:'']
     @ key_insight (total_run_delta run1 run2) (total_queue_delta run1 run2)
         (get_wall_time run2 - get_wall_time run1)
     @ [py_repeat (lit ''='') width, [],
        lit ''Legend: '' @ [9608] @ lit '' running  '' @ [9617] @ lit '' queued'']
   \<and> hd (key_insight r q w) =
       (if r < - 60 then
          lit ''  Run 2 saved '' @ format_duration (- r)
            @ lit '' in actual build time across all jobs.''
        else if 60 < r then
          lit ''  Run 2 spent '' @ format_duration r
            @ lit '' MORE in actual build time across all jobs.''
        else lit ''  Actual build times are roughly the same.'')
   \<and> (lit ''  BUT Run 2 had '' @ format_duration q @ lit '' MORE queue wait time.''
         \<in> set (key_insight r q w) \<longleftrightarrow> 60 < q)
   \<and> (lit ''  AND Run 2 had '' @ format_duration (- q) @ lit '' LESS queue wait time.''
         \<in> set (key_insight r q w) \<longleftrightarrow> q < - 60)
   \<and> (lit ''  Despite faster builds, wall clock time increased due to runner queue delays!''
         \<in> set (key_insight r q w) \<longleftrightarrow> 0 < w \<and> r < 0)
   \<and> (lit ''  Build time savings translated to faster wall clock time.''
         \<in> set (key_insight r q w) \<longleftrightarrow> w < 0 \<and> r < 0)
   \<and> length (key_insight r q w) =
       1 + (if 60 < \<bar>q\<bar> then 1 else 0) + (if r < 0 \<and> w \<noteq> 0 then 2 else 0)"
  using key_insight_placement [of run1 run2 width, unfolded Let_def]
    key_insight_first [of r q w] key_insight_but [of q r w] key_insight_and [of q r w]
    key_insight_masked [of r q w] key_insight_won [of r q w] key_insight_length [of r q w]
  by blast

theorem key_insight_classification_witness:
  "hd (key_insight (- 70) 90 20) = lit ''  Run 2 saved 1m10s in actual build time across all jobs.''
   \<and> lit ''  BUT Run 2 had 1m30s MORE queue wait time.'' \<in> set (key_insight (- 70) 90 20)
   \<and> lit ''  Despite faster builds, wall clock time increased due to runner queue delays!''
       \<in> set (key_insight (- 70) 90 20)
   \<and> lit ''  Build time savings translated to faster wall clock time.''
       \<notin> set (key_insight (- 70) 90 20)
   \<and> length (key_insight (- 70) 90 20) = 4"
proof -
  have f: "format_duration 70 = lit ''1m10s''" "format_duration 90 = lit ''1m30s''"
    by (simp_all add: fd_eval)
  show ?thesis
    using key_insight_classification [of scenario_run1 scenario_run2 140 "- 70" 90 20]
    by (simp add: f lit_def)
qed

text \<open>
  C6 as stated fails in the scenario of the specification: wall clock and build time both
  fell by 70 seconds, so they did not move in opposite directions, and the insight line is
  written. Where the build time rose by 70 seconds and the wall clock fell, so that they did
  move in opposite directions, no insight line is written.
\<close>

theorem key_insight_direction_counterexample:
  "get_wall_time scenario_run2 - get_wall_time scenario_run1 = - 70
   \<and> total_run_delta scenario_run1 scenario_run2 = - 70
   \<and> drop 14 (render_unified_diff_lines scenario_run1 scenario_run2 140) =
       [lit ''KEY INSIGHT:'',
        lit ''  Run 2 saved 1m10s in actual build time across all jobs.'',
        [],
        lit ''  Build time savings translated to faster wall clock time.'',
        py_repeat (lit ''='') 140,
        [],
        lit ''Legend: '' @ [9608] @ lit '' running  '' @ [9617] @ lit '' queued'']
   \<and> key_insight 70 0 (- 70) =
       [lit ''  Run 2 spent 1m10s MORE in actual build time across all jobs.'']"
proof -
  have "key_insight 70 0 (- 70) =
      [lit ''  Run 2 spent 1m10s MORE in actual build time across all jobs.'']"
    by (simp add: key_insight_def fd_eval)
  then show ?thesis
    by (simp add: scenario_deltas scenario_key_insight)
qed












end
